theory Spec2Isabelle
  imports Main "HOL-Library.AList"
begin

text \<open>
  The chat orchestration core of the Gallo Connect storefront: the session stores of
  \<open>LLMService\<close> (conversation history, order flow, terms interrupt), a turn of
  \<open>generateResponseWithSession\<close> with its tool-call round and its failover, the tool
  client \<open>MCPSDKService\<close>, the provider availability cache and the requests the
  provider adapters build.  State is passed explicitly; what the service does to its
  collaborators is recorded as a list of events.
\<close>

section \<open>Strings\<close>

text \<open>
  JavaScript strings are modelled as lists of 8-bit characters holding the UTF-8 bytes of
  the text.  The source searches, strips and compares with ASCII patterns only
  (\<open>includes\<close>, \<open>startsWith\<close>, \<open>substring\<close> after an ASCII prefix, equality,
  concatenation), and on well-formed text these operations give the same answers on the
  bytes as on the code units.  The operations whose result depends on the Unicode tables
  of the runtime (\<open>toLowerCase\<close>, \<open>trim\<close>, the split of a string into code units)
  are not defined here: they are read from the environment of a turn.  The symbols outside
  ASCII that the source prints (check mark, cross mark, bullet, page) are the named byte
  sequences below.
\<close>

fun startsWith :: "string \<Rightarrow> string \<Rightarrow> bool" where
  "startsWith s [] = True"
| "startsWith [] (p # ps) = False"
| "startsWith (c # cs) (p # ps) = (c = p \<and> startsWith cs ps)"

fun str_includes :: "string \<Rightarrow> string \<Rightarrow> bool" where
  "str_includes [] sub = (sub = [])"
| "str_includes (c # cs) sub = (startsWith (c # cs) sub \<or> str_includes cs sub)"

fun join :: "string \<Rightarrow> string list \<Rightarrow> string" where
  "join sep [] = []"
| "join sep [x] = x"
| "join sep (x # y # ys) = x @ sep @ join sep (y # ys)"

definition digit :: "nat \<Rightarrow> char" where
  "digit d = ''0123456789'' ! d"

fun show_nat :: "nat \<Rightarrow> string" where
  "show_nat n = (if n < 10 then [digit n] else show_nat (n div 10) @ [digit (n mod 10)])"

declare show_nat.simps [simp del]

definition check_mark :: string where
  "check_mark = [CHR 0xE2, CHR 0x9C, CHR 0x85]"

definition cross_mark :: string where
  "cross_mark = [CHR 0xE2, CHR 0x9D, CHR 0x8C]"

definition page_mark :: string where
  "page_mark = [CHR 0xF0, CHR 0x9F, CHR 0x93, CHR 0x84]"

definition bullet :: string where
  "bullet = [CHR 0xE2, CHR 0x80, CHR 0xA2]"


section \<open>Data model\<close>

datatype json =
    JNull
  | JBool bool
  | JNum int
  | JStr string
  | JArr "json list"
  | JObj "(string \<times> json) list"

type_synonym json_object = "(string \<times> json) list"

datatype role = User | Assistant | System | Tool

record LLMToolCall =
  call_id :: string
  function_name :: string
  function_arguments :: string

record LLMMessage =
  role :: role
  content :: string
  timestamp :: "nat option"
  tool_calls :: "LLMToolCall list option"
  tool_call_id :: "string option"

record LLMFunctionDefinition =
  def_name :: string
  def_description :: string
  def_parameters :: json

record LLMResponse =
  response_content :: string
  response_tool_calls :: "LLMToolCall list option"

record MCPTool =
  tool_name :: string
  tool_description :: string
  tool_serverId :: string
  inputSchema :: json

record MCPToolCall =
  mcp_name :: string
  mcp_arguments :: json_object
  mcp_serverId :: string

datatype content_type = TextPart | ImagePart | ResourcePart | ResourceLinkPart

record MCPContent =
  part_type :: content_type
  part_text :: "string option"
  part_data :: "string option"
  part_mimeType :: "string option"
  part_uri :: "string option"
  part_name :: "string option"
  part_description :: "string option"

record MCPToolResult =
  result_content :: "MCPContent list"
  isError :: bool

datatype LLMProviderType = Local | OpenAI | Gemini | Fallback

record LLMServiceConfig =
  primaryProvider :: LLMProviderType
  fallbackProvider :: "LLMProviderType option"
  enableFallback :: bool

datatype step = Payment | Address | Delivery | Confirmation | Complete

record OrderFlow =
  isActive :: bool
  currentStep :: step
  collectedData :: json_object
  availableOptions :: json_object

record PendingOrderOperation =
  originalToolCall :: LLMToolCall
  waitingForTermsAcceptance :: bool
  termsMessage :: "string option"

record SessionContext =
  pendingOrderOperation :: "PendingOrderOperation option"
  orderFlow :: "OrderFlow option"

text \<open>
  The two process-wide stores of \<open>LLMService\<close> (\<open>conversationHistory\<close> and
  \<open>sessionContext\<close>, both keyed by session id), the active provider and the loaded
  configuration.
\<close>

record LLMService =
  conversationHistory :: "string \<rightharpoonup> LLMMessage list"
  sessionContext :: "string \<rightharpoonup> SessionContext"
  currentProvider :: LLMProviderType
  config :: "LLMServiceConfig option"

definition MAX_CONVERSATION_LENGTH :: nat where
  "MAX_CONVERSATION_LENGTH = 20"

definition SESSION_TIMEOUT :: nat where
  "SESSION_TIMEOUT = 30 * 60 * 1000"

definition CACHE_DURATION :: nat where
  "CACHE_DURATION = 30000"


section \<open>Conversation history\<close>

definition getConversationHistory :: "string \<Rightarrow> LLMService \<Rightarrow> LLMMessage list \<times> LLMService" where
  "getConversationHistory sessionId st =
     (case conversationHistory st sessionId of
        None \<Rightarrow> ([], st\<lparr>conversationHistory := (conversationHistory st)(sessionId \<mapsto> [])\<rparr>)
      | Some h \<Rightarrow> (h, st))"

text \<open>\<open>history.slice(-k)\<close>: the last \<open>k\<close> elements, all of them when there are fewer.\<close>

definition slice_last :: "nat \<Rightarrow> 'a list \<Rightarrow> 'a list" where
  "slice_last k xs = drop (length xs - k) xs"

definition trimHistory :: "LLMMessage list \<Rightarrow> LLMMessage list" where
  "trimHistory history =
     (if length history > MAX_CONVERSATION_LENGTH then
        (let systemMessage = find (\<lambda>msg. role msg = System) history;
             recentMessages = slice_last (MAX_CONVERSATION_LENGTH - 1) history
         in case systemMessage of
              Some m \<Rightarrow> m # recentMessages
            | None \<Rightarrow> recentMessages)
      else history)"

definition addToConversationHistory :: "string \<Rightarrow> LLMMessage \<Rightarrow> LLMService \<Rightarrow> LLMService" where
  "addToConversationHistory sessionId message st =
     (let (history, st1) = getConversationHistory sessionId st
      in st1\<lparr>conversationHistory :=
               (conversationHistory st1)(sessionId \<mapsto> trimHistory (history @ [message]))\<rparr>)"

definition clearConversationHistory :: "string \<Rightarrow> LLMService \<Rightarrow> LLMService" where
  "clearConversationHistory sessionId st =
     st\<lparr>conversationHistory := (conversationHistory st)(sessionId := None),
        sessionContext := (sessionContext st)(sessionId := None)\<rparr>"

definition history_of :: "LLMService \<Rightarrow> string \<Rightarrow> LLMMessage list" where
  "history_of st sessionId = (case conversationHistory st sessionId of None \<Rightarrow> [] | Some h \<Rightarrow> h)"



section \<open>Session context: terms interrupt and order flow\<close>

definition emptyContext :: SessionContext where
  "emptyContext = \<lparr>pendingOrderOperation = None, orderFlow = None\<rparr>"

definition contextOrNew :: "string \<Rightarrow> LLMService \<Rightarrow> SessionContext" where
  "contextOrNew sessionId st =
     (case sessionContext st sessionId of None \<Rightarrow> emptyContext | Some c \<Rightarrow> c)"

definition setPendingOrderContext ::
  "string \<Rightarrow> LLMToolCall \<Rightarrow> string option \<Rightarrow> LLMService \<Rightarrow> LLMService" where
  "setPendingOrderContext sessionId toolCall termsMsg st =
     (let context = contextOrNew sessionId st
      in st\<lparr>sessionContext := (sessionContext st)(sessionId \<mapsto>
              context\<lparr>pendingOrderOperation :=
                 Some \<lparr>originalToolCall = toolCall,
                       waitingForTermsAcceptance = True,
                       termsMessage = termsMsg\<rparr>\<rparr>)\<rparr>)"

definition isWaitingForTermsAcceptance :: "string \<Rightarrow> LLMService \<Rightarrow> bool" where
  "isWaitingForTermsAcceptance sessionId st =
     (case sessionContext st sessionId of
        None \<Rightarrow> False
      | Some context \<Rightarrow>
          (case pendingOrderOperation context of
             None \<Rightarrow> False
           | Some p \<Rightarrow> waitingForTermsAcceptance p))"

definition clearPendingOrderContext :: "string \<Rightarrow> LLMService \<Rightarrow> LLMService" where
  "clearPendingOrderContext sessionId st =
     (case sessionContext st sessionId of
        None \<Rightarrow> st
      | Some context \<Rightarrow>
          (case pendingOrderOperation context of
             None \<Rightarrow> st
           | Some p \<Rightarrow>
               st\<lparr>sessionContext := (sessionContext st)(sessionId \<mapsto>
                     context\<lparr>pendingOrderOperation := None\<rparr>)\<rparr>))"

definition initializeOrderFlow :: "string \<Rightarrow> LLMService \<Rightarrow> LLMService" where
  "initializeOrderFlow sessionId st =
     (let context = contextOrNew sessionId st
      in st\<lparr>sessionContext := (sessionContext st)(sessionId \<mapsto>
              context\<lparr>orderFlow :=
                 Some \<lparr>isActive = True, currentStep = Payment,
                       collectedData = [], availableOptions = []\<rparr>\<rparr>)\<rparr>)"

definition hasActiveOrderFlow :: "string \<Rightarrow> LLMService \<Rightarrow> bool" where
  "hasActiveOrderFlow sessionId st =
     (case sessionContext st sessionId of
        None \<Rightarrow> False
      | Some context \<Rightarrow>
          (case orderFlow context of None \<Rightarrow> False | Some f \<Rightarrow> isActive f))"

definition getCurrentOrderStep :: "string \<Rightarrow> LLMService \<Rightarrow> step option" where
  "getCurrentOrderStep sessionId st =
     (case sessionContext st sessionId of
        None \<Rightarrow> None
      | Some context \<Rightarrow>
          (case orderFlow context of None \<Rightarrow> None | Some f \<Rightarrow> Some (currentStep f)))"

definition stepOrder :: "step list" where
  "stepOrder = [Payment, Address, Delivery, Confirmation, Complete]"

text \<open>\<open>Array.prototype.indexOf\<close>: the first position of the element, \<open>-1\<close> when absent.\<close>

fun indexOf :: "'a list \<Rightarrow> 'a \<Rightarrow> int" where
  "indexOf [] x = - 1"
| "indexOf (y # ys) x =
     (if x = y then 0 else (let i = indexOf ys x in if i < 0 then - 1 else i + 1))"

definition advanceOrderStep :: "string \<Rightarrow> LLMService \<Rightarrow> LLMService" where
  "advanceOrderStep sessionId st =
     (case sessionContext st sessionId of
        None \<Rightarrow> st
      | Some context \<Rightarrow>
          (case orderFlow context of
             None \<Rightarrow> st
           | Some f \<Rightarrow>
               (let currentIndex = indexOf stepOrder (currentStep f)
                in if 0 \<le> currentIndex \<and> currentIndex < int (length stepOrder) - 1
                   then st\<lparr>sessionContext := (sessionContext st)(sessionId \<mapsto>
                          context\<lparr>orderFlow :=
                            Some (f\<lparr>currentStep := stepOrder ! nat (currentIndex + 1)\<rparr>)\<rparr>)\<rparr>
                   else st)))"

text \<open>
  The object spread \<open>{...a, ...b}\<close>: the properties of \<open>a\<close> overridden by those of \<open>b\<close>,
  followed by the properties only \<open>b\<close> has, and enumerated as JavaScript enumerates own
  properties: the keys that are array indices (canonical decimal numerals below
  \<open>2^32 - 1\<close>) first, in ascending order, then the other keys in the order they were
  added.
\<close>

definition digitValue :: "char \<Rightarrow> nat option" where
  "digitValue c = map_of (zip ''0123456789'' [0, 1, 2, 3, 4, 5, 6, 7, 8, 9]) c"

fun decimal :: "nat \<Rightarrow> string \<Rightarrow> nat option" where
  "decimal acc [] = Some acc"
| "decimal acc (c # cs) =
     (case digitValue c of None \<Rightarrow> None | Some d \<Rightarrow> decimal (10 * acc + d) cs)"

definition arrayIndex :: "string \<Rightarrow> nat option" where
  "arrayIndex k =
     (if k = [] then None
      else (case decimal 0 k of
              None \<Rightarrow> None
            | Some n \<Rightarrow> if show_nat n = k \<and> n < 4294967295 then Some n else None))"

definition jsOrder :: "json_object \<Rightarrow> json_object" where
  "jsOrder kvs =
     sort_key (\<lambda>kv. the (arrayIndex (fst kv))) (filter (\<lambda>kv. arrayIndex (fst kv) \<noteq> None) kvs) @
     filter (\<lambda>kv. arrayIndex (fst kv) = None) kvs"

definition spread :: "json_object \<Rightarrow> json_object \<Rightarrow> json_object" where
  "spread a b = jsOrder (fold (\<lambda>(k, v). AList.update k v) b a)"

definition updateOrderFlowData :: "string \<Rightarrow> json_object \<Rightarrow> LLMService \<Rightarrow> LLMService" where
  "updateOrderFlowData sessionId data st =
     (case sessionContext st sessionId of
        None \<Rightarrow> st
      | Some context \<Rightarrow>
          (case orderFlow context of
             None \<Rightarrow> st
           | Some f \<Rightarrow>
               st\<lparr>sessionContext := (sessionContext st)(sessionId \<mapsto>
                     context\<lparr>orderFlow :=
                       Some (f\<lparr>collectedData := spread (collectedData f) data\<rparr>)\<rparr>)\<rparr>))"

definition clearOrderFlow :: "string \<Rightarrow> LLMService \<Rightarrow> LLMService" where
  "clearOrderFlow sessionId st =
     (case sessionContext st sessionId of
        None \<Rightarrow> st
      | Some context \<Rightarrow>
          (case orderFlow context of
             None \<Rightarrow> st
           | Some f \<Rightarrow>
               st\<lparr>sessionContext := (sessionContext st)(sessionId \<mapsto>
                     context\<lparr>orderFlow := None\<rparr>)\<rparr>))"

definition startOrderFlow :: "string \<Rightarrow> LLMService \<Rightarrow> LLMService" where
  "startOrderFlow sessionId st = initializeOrderFlow sessionId st"

definition cancelOrderFlow :: "string \<Rightarrow> LLMService \<Rightarrow> LLMService" where
  "cancelOrderFlow sessionId st = clearOrderFlow sessionId st"

text \<open>The flow of a session, when it has one.\<close>

definition flow_of :: "LLMService \<Rightarrow> string \<Rightarrow> OrderFlow option" where
  "flow_of st sessionId =
     (case sessionContext st sessionId of None \<Rightarrow> None | Some context \<Rightarrow> orderFlow context)"

definition pending_of :: "LLMService \<Rightarrow> string \<Rightarrow> PendingOrderOperation option" where
  "pending_of st sessionId =
     (case sessionContext st sessionId of
        None \<Rightarrow> None
      | Some context \<Rightarrow> pendingOrderOperation context)"


section \<open>Session cleanup\<close>

text \<open>A session is expired when its last message carries a timestamp older than the
  timeout; a session with an empty history or an unstamped last message is never expired.\<close>

definition expired :: "nat \<Rightarrow> LLMMessage list \<Rightarrow> bool" where
  "expired now history =
     (if history = [] then False
      else (case timestamp (last history) of
              None \<Rightarrow> False
            | Some t \<Rightarrow> int now - int t > int SESSION_TIMEOUT))"

definition cleanupOldSessions :: "nat \<Rightarrow> LLMService \<Rightarrow> LLMService" where
  "cleanupOldSessions now st =
     st\<lparr>conversationHistory :=
          (\<lambda>sessionId. case conversationHistory st sessionId of
                          None \<Rightarrow> None
                        | Some history \<Rightarrow> if expired now history then None else Some history)\<rparr>"


section \<open>The environment of a turn\<close>

text \<open>
  What the service reads from its collaborators while it processes one turn: the clock and
  the random source, the site context, the JSON codec, the state of the tool client, the
  tool server behind the SDK client and the language-model backends behind the provider
  adapters.  The values are those in force during the turn.

  \<open>toLowerCase\<close> and \<open>trim\<close> are \<open>String.prototype.toLowerCase\<close> and
  \<open>String.prototype.trim\<close> of the runtime, and \<open>codeUnits s\<close> are the one-unit strings
  a string spreads into.  \<open>JSON_parse s\<close> is the value \<open>JSON.parse\<close> returns (an
  object with its properties in their enumeration order), and \<open>None\<close> when it throws.
  \<open>typeErrorMessage v\<close> is the message of the \<open>TypeError\<close> the runtime raises when a
  property is assigned on \<open>v\<close>, a value that cannot take one (\<open>null\<close> or a primitive; the
  service is strict-mode code).  \<open>sdkCallTool\<close> is \<open>client.callTool\<close>: \<open>Inl\<close> is a
  thrown value, with its message when it is an \<open>Error\<close>.  \<open>respond\<close> is
  \<open>generateResponse\<close> of the registered provider: \<open>Inl\<close> is the message of the error
  it raises.
\<close>

datatype RawResult =
    RawNothing
  | RawWithContent "MCPContent list" "bool option"
  | RawString string
  | RawObject json

record Env =
  now :: nat
  randomSuffix :: string
  toLowerCase :: "string \<Rightarrow> string"
  trim :: "string \<Rightarrow> string"
  codeUnits :: "string \<Rightarrow> string list"
  baseSite :: "string option"
  contextualizedPrompt :: string
  JSON_parse :: "string \<Rightarrow> json option"
  JSON_stringify :: "json \<Rightarrow> string"
  typeErrorMessage :: "json \<Rightarrow> string"
  stringify_part :: "MCPContent \<Rightarrow> string"
  mcpConnectionHealthy :: bool
  clientInitialized :: bool
  availableTools :: "MCPTool list"
  windowOrigin :: "string option"
  accessToken :: "string option"
  activeCartCode :: "string option"
  sdkCallTool :: "string \<Rightarrow> json_object \<Rightarrow> string option + RawResult"
  respond :: "LLMProviderType \<Rightarrow> LLMMessage list \<Rightarrow> LLMFunctionDefinition list option
                \<Rightarrow> string + LLMResponse"

text \<open>
  What a turn does to the outside, in order.  The executions of a batch of tool calls run
  side by side: \<open>Concurrently\<close> holds the trace of each execution, in the order of the
  calls, and says nothing about how the traces interleave.
\<close>

datatype event =
    ProviderCall LLMProviderType "LLMMessage list" "LLMFunctionDefinition list option"
  | ToolDispatch MCPToolCall
  | ServerCall string json_object
  | TermsErrorDetected string
  | Concurrently "event list list"

definition isProviderCall :: "event \<Rightarrow> bool" where
  "isProviderCall e = (case e of ProviderCall p ms ts \<Rightarrow> True | _ \<Rightarrow> False)"

text \<open>A string that JavaScript treats as true: present and not empty.\<close>

definition truthy :: "string option \<Rightarrow> bool" where
  "truthy s = (case s of None \<Rightarrow> False | Some t \<Rightarrow> t \<noteq> [])"

definition orElse :: "string option \<Rightarrow> string \<Rightarrow> string" where
  "orElse s d = (if truthy s then the s else d)"

definition generateSessionId :: "Env \<Rightarrow> string" where
  "generateSessionId w = ''session_'' @ show_nat (now w) @ ''_'' @ randomSuffix w"

definition message :: "Env \<Rightarrow> role \<Rightarrow> string \<Rightarrow> LLMMessage" where
  "message w r c =
     \<lparr>role = r, content = c, timestamp = Some (now w), tool_calls = None, tool_call_id = None\<rparr>"

definition createSystemPrompt :: "Env \<Rightarrow> LLMMessage" where
  "createSystemPrompt w = message w System (contextualizedPrompt w)"


section \<open>Tool client (MCPSDKService)\<close>

definition mcpPrefix :: string where
  "mcpPrefix = ''mcp_''"

definition toLLMTool :: "MCPTool \<Rightarrow> LLMFunctionDefinition" where
  "toLLMTool tool =
     \<lparr>def_name = mcpPrefix @ tool_name tool,
      def_description = tool_description tool,
      def_parameters = inputSchema tool\<rparr>"

definition getToolsForLLM :: "Env \<Rightarrow> LLMFunctionDefinition list" where
  "getToolsForLLM w = map toLLMTool (availableTools w)"

definition textPart :: "string \<Rightarrow> MCPContent" where
  "textPart t =
     \<lparr>part_type = TextPart, part_text = Some t, part_data = None, part_mimeType = None,
      part_uri = None, part_name = None, part_description = None\<rparr>"

definition sdk_formatToolResult :: "Env \<Rightarrow> RawResult \<Rightarrow> MCPToolResult" where
  "sdk_formatToolResult w result =
     (case result of
        RawNothing \<Rightarrow>
          \<lparr>result_content = [textPart ''No result returned from tool''], isError = False\<rparr>
      | RawWithContent parts e \<Rightarrow> \<lparr>result_content = parts, isError = (e = Some True)\<rparr>
      | RawString s \<Rightarrow>
          (if s = [] then
             \<lparr>result_content = [textPart ''No result returned from tool''], isError = False\<rparr>
           else \<lparr>result_content = [textPart s], isError = False\<rparr>)
      | RawObject j \<Rightarrow> \<lparr>result_content = [textPart (JSON_stringify w j)], isError = False\<rparr>)"

definition isCartOperation :: "string \<Rightarrow> bool" where
  "isCartOperation name =
     (str_includes name ''add-to-cart'' \<or> str_includes name ''place-order'' \<or>
      str_includes name ''cart'' \<or> str_includes name ''checkout'')"

definition inject :: "string \<Rightarrow> string option \<Rightarrow> json_object \<Rightarrow> json_object" where
  "inject key v args = (if truthy v then AList.update key (JStr (the v)) args else args)"

text \<open>The arguments \<open>callTool\<close> sends: those of the call with the site, the access
  token and, for a cart operation, the active cart added.\<close>

definition enhancedArguments :: "Env \<Rightarrow> MCPToolCall \<Rightarrow> json_object" where
  "enhancedArguments w toolCall =
     (let a1 = inject ''baseSiteUrl'' (windowOrigin w) (mcp_arguments toolCall);
          a2 = inject ''access_token'' (accessToken w) a1
      in if isCartOperation (mcp_name toolCall)
         then inject ''cartId'' (activeCartCode w) a2 else a2)"

definition callTool :: "Env \<Rightarrow> MCPToolCall \<Rightarrow> (string + MCPToolResult) \<times> event list" where
  "callTool w toolCall =
     (if \<not> clientInitialized w then (Inl ''MCP client not initialized'', [])
      else
        (case sdkCallTool w (mcp_name toolCall) (enhancedArguments w toolCall) of
           Inr result \<Rightarrow>
             (Inr (sdk_formatToolResult w result),
              [ServerCall (mcp_name toolCall) (enhancedArguments w toolCall)])
         | Inl err \<Rightarrow>
             (Inr \<lparr>result_content =
                     [textPart (''Error executing tool: '' @
                        (case err of Some m \<Rightarrow> m | None \<Rightarrow> ''Unknown error''))],
                   isError = True\<rparr>,
              [ServerCall (mcp_name toolCall) (enhancedArguments w toolCall)])))"


section \<open>Tool execution in the orchestrator\<close>

definition partTexts :: "MCPToolResult \<Rightarrow> string list" where
  "partTexts result =
     map (\<lambda>c. case part_text c of None \<Rightarrow> [] | Some t \<Rightarrow> t) (result_content result)"

text \<open>The test of lines 755 to 757 of \<open>executeMCPTool\<close>: an error result of an
  order-placement tool whose text holds both tokens.\<close>

definition isTermsError :: "Env \<Rightarrow> string \<Rightarrow> MCPToolResult \<Rightarrow> bool" where
  "isTermsError w originalName result =
     (isError result \<and> str_includes originalName ''place-order'' \<and>
      (let errorText = toLowerCase w (join '' '' (partTexts result))
       in str_includes errorText ''terms'' \<and> str_includes errorText ''condition''))"

text \<open>
  The value of the arguments of a tool call: what \<open>JSON.parse\<close> returns, the empty object
  when it throws.  A value that is \<open>null\<close> or a primitive cannot take the \<open>baseSiteId\<close>
  property: the assignment raises a \<open>TypeError\<close>, inside the handler of the preparation.
  The tool client reads the arguments of an \<open>MCPToolCall\<close> by spreading them into a new
  object only, so the call carries the own enumerable properties of the value: those of
  an object, the indexed elements of an array, the indexed code units of a string, none
  otherwise.
\<close>

definition indexed :: "json list \<Rightarrow> json_object" where
  "indexed xs = zip (map show_nat [0..<length xs]) xs"

definition ownProperties :: "Env \<Rightarrow> json \<Rightarrow> json_object" where
  "ownProperties w v =
     (case v of
        JObj kvs \<Rightarrow> kvs
      | JArr xs \<Rightarrow> indexed xs
      | JStr t \<Rightarrow> indexed (map JStr (codeUnits w t))
      | _ \<Rightarrow> [])"

definition acceptsProperty :: "json \<Rightarrow> bool" where
  "acceptsProperty v = (case v of JObj kvs \<Rightarrow> True | JArr xs \<Rightarrow> True | _ \<Rightarrow> False)"

definition argumentsValue :: "Env \<Rightarrow> LLMToolCall \<Rightarrow> json" where
  "argumentsValue w toolCall =
     (case JSON_parse w (function_arguments toolCall) of None \<Rightarrow> JObj [] | Some v \<Rightarrow> v)"

definition assignmentFails :: "Env \<Rightarrow> LLMToolCall \<Rightarrow> bool" where
  "assignmentFails w toolCall =
     (truthy (baseSite w) \<and> \<not> acceptsProperty (argumentsValue w toolCall))"

definition mcpToolCallOf :: "Env \<Rightarrow> LLMToolCall \<Rightarrow> MCPToolCall" where
  "mcpToolCallOf w toolCall =
     \<lparr>mcp_name = drop (length mcpPrefix) (function_name toolCall),
      mcp_arguments = inject ''baseSiteId'' (baseSite w)
                        (ownProperties w (argumentsValue w toolCall)),
      mcp_serverId = ''default''\<rparr>"

text \<open>
  \<open>executeMCPTool\<close> has no session id and no access to the session context: where it
  detects the terms error it only logs, which is the event \<open>TermsErrorDetected\<close>.
\<close>

definition executeMCPTool :: "Env \<Rightarrow> LLMToolCall \<Rightarrow> (string + MCPToolResult) \<times> event list" where
  "executeMCPTool w toolCall =
     (let functionName = function_name toolCall in
      if \<not> startsWith functionName mcpPrefix then
        (Inl (''Invalid MCP function name: '' @ functionName), [])
      else if assignmentFails w toolCall then
        (Inl (typeErrorMessage w (argumentsValue w toolCall)), [])
      else
        (let originalName = drop (length mcpPrefix) functionName;
             mcpToolCall = mcpToolCallOf w toolCall
         in if \<not> mcpConnectionHealthy w then
              (Inl ''MCP connection could not be established'', [])
            else
              (case callTool w mcpToolCall of
                 (Inr result, evs) \<Rightarrow>
                   (Inr result,
                    ToolDispatch mcpToolCall # evs @
                      (if isTermsError w originalName result
                       then [TermsErrorDetected originalName] else []))
               | (Inl err, evs) \<Rightarrow> (Inl err, ToolDispatch mcpToolCall # evs))))"

definition formatPart :: "Env \<Rightarrow> MCPContent \<Rightarrow> string" where
  "formatPart w c =
     (case part_type c of
        TextPart \<Rightarrow> orElse (part_text c) []
      | ResourcePart \<Rightarrow>
          page_mark @ '' Resource: '' @
            orElse (part_name c) (orElse (part_uri c) ''Unknown'') @ ''\<newline>'' @
            orElse (part_text c) (orElse (part_description c) [])
      | ResourceLinkPart \<Rightarrow>
          page_mark @ '' Resource: '' @
            orElse (part_name c) (orElse (part_uri c) ''Unknown'') @ ''\<newline>'' @
            orElse (part_text c) (orElse (part_description c) [])
      | ImagePart \<Rightarrow> stringify_part w c)"

definition formatToolResult :: "Env \<Rightarrow> MCPToolResult \<Rightarrow> string" where
  "formatToolResult w result =
     (if isError result then
        cross_mark @ '' Tool Error: '' @ join ''\<newline>'' (partTexts result)
      else if result_content result = [] then
        check_mark @ '' Tool executed successfully (no output)''
      else
        check_mark @ '' Tool Result:\<newline>'' @
          join ''\<newline>\<newline>'' (map (formatPart w) (result_content result)))"

definition toolMessage :: "Env \<Rightarrow> LLMToolCall \<Rightarrow> string \<Rightarrow> LLMMessage" where
  "toolMessage w toolCall c =
     \<lparr>role = Tool, content = c, timestamp = Some (now w), tool_calls = None,
      tool_call_id = Some (call_id toolCall)\<rparr>"

text \<open>One tool execution of the batch: the tool-result message, a synthetic one when the
  execution raised.\<close>

definition toolExecution :: "Env \<Rightarrow> LLMToolCall \<Rightarrow> LLMMessage \<times> event list" where
  "toolExecution w toolCall =
     (case executeMCPTool w toolCall of
        (Inr result, evs) \<Rightarrow> (toolMessage w toolCall (formatToolResult w result), evs)
      | (Inl err, evs) \<Rightarrow>
          (toolMessage w toolCall
             (''Error executing tool '' @ function_name toolCall @ '': '' @ err), evs))"

text \<open>
  \<open>executeToolCalls\<close>.  The batch runs under \<open>Promise.all\<close>: every execution is
  started before any of them reaches the tool server, and the follow-up waits for all of
  them; the traces of the executions are recorded side by side.  Every execution ends in a
  message, so the rejection handler of the batch is never entered.  The provider of the
  follow-up is looked up again: only \<open>Local\<close>, \<open>OpenAI\<close> and \<open>Gemini\<close> are registered.
  The follow-up passes no tool definitions and only its \<open>content\<close> is read.
\<close>

definition executeToolCalls ::
  "Env \<Rightarrow> LLMService \<Rightarrow> LLMToolCall list \<Rightarrow> LLMMessage list \<Rightarrow> LLMResponse
     \<Rightarrow> string \<times> event list" where
  "executeToolCalls w st toolCalls messages originalResponse =
     (let assistantMessage =
            \<lparr>role = Assistant, content = response_content originalResponse,
             timestamp = Some (now w), tool_calls = Some toolCalls, tool_call_id = None\<rparr>;
          updatedMessages = messages @ [assistantMessage];
          toolExecutions = map (toolExecution w) toolCalls;
          toolResults = map fst toolExecutions;
          evs = [Concurrently (map snd toolExecutions)];
          messagesWithToolResults = updatedMessages @ toolResults
      in if currentProvider st = Fallback then
           (''Tool execution completed, but unable to generate follow-up response.'', evs)
         else
           (case respond w (currentProvider st) messagesWithToolResults None of
              Inr followupResponse \<Rightarrow>
                (response_content followupResponse,
                 evs @ [ProviderCall (currentProvider st) messagesWithToolResults None])
            | Inl err \<Rightarrow>
                (''Tools executed successfully, but follow-up response failed: '' @ err,
                 evs @ [ProviderCall (currentProvider st) messagesWithToolResults None])))"

definition handleLLMResponse ::
  "Env \<Rightarrow> LLMService \<Rightarrow> LLMResponse \<Rightarrow> LLMMessage list \<Rightarrow> string \<times> event list" where
  "handleLLMResponse w st response messages =
     (case response_tool_calls response of
        Some toolCalls \<Rightarrow>
          (if toolCalls \<noteq> [] then executeToolCalls w st toolCalls messages response
           else (response_content response, []))
      | None \<Rightarrow> (response_content response, []))"


section \<open>Rule-based responder\<close>

definition getFallbackResponse :: "Env \<Rightarrow> string \<Rightarrow> string option \<Rightarrow> string" where
  "getFallbackResponse w userMessage error =
     (let lowered = toLowerCase w userMessage in
      if truthy error then
        ''I apologize, but I'm experiencing some technical difficulties with my AI assistant. However, I'm still here to help! You asked about \"''
          @ userMessage @ ''\" - could you please rephrase your question or let me know how I can assist you?''
      else if str_includes lowered ''hello'' \<or> str_includes lowered ''hi'' then
        ''Hello! Welcome to Gallo Connect. I'm here to help you with any questions about our products, orders, or services. How can I assist you today?''
      else if str_includes lowered ''help'' then
        ''I'm here to help! I can assist you with:\<newline>'' @ bullet @ '' Product information and recommendations\<newline>''
          @ bullet @ '' Order status and tracking\<newline>'' @ bullet @ '' Shipping and delivery questions\<newline>''
          @ bullet @ '' Returns and exchanges\<newline>'' @ bullet @ '' Account support\<newline>\<newline>What would you like to know more about?''
      else if str_includes lowered ''product'' \<or> str_includes lowered ''item'' \<or> str_includes lowered ''buy'' then
        ''I'd be happy to help you find the perfect product! You can browse our full catalog on the website, or tell me what specific type of item you're looking for and I'll guide you in the right direction.''
      else if str_includes lowered ''order'' \<or> str_includes lowered ''shipping'' \<or> str_includes lowered ''delivery'' then
        ''For order-related inquiries, you can check your order status in your account dashboard. If you need help tracking a shipment or have questions about delivery times, I can guide you through the process. What specific information do you need?''
      else if str_includes lowered ''return'' \<or> str_includes lowered ''refund'' \<or> str_includes lowered ''exchange'' then
        ''Our return policy allows returns within 30 days of purchase. I can help you start a return request or answer any questions about our return process. Would you like me to guide you through the steps?''
      else if str_includes lowered ''contact'' \<or> str_includes lowered ''support'' \<or> str_includes lowered ''phone'' then
        ''You can reach our customer support team at:\<newline>'' @ bullet @ '' Email: support@galloconnect.com\<newline>''
          @ bullet @ '' Phone: 1-800-GALLO-1\<newline>'' @ bullet @ '' Hours: Monday-Friday 9AM-6PM EST\<newline>\<newline>Or I can try to help you right here! What do you need assistance with?''
      else if str_includes lowered ''bye'' \<or> str_includes lowered ''goodbye'' \<or> str_includes lowered ''thanks'' then
        ''Thank you for choosing Gallo Connect! Have a wonderful day, and don't hesitate to reach out if you need any more assistance.''
      else
        ''Thank you for your question! While I'm working to understand your request better, I'd be happy to help you find what you need. Could you provide a bit more detail about what you're looking for? You can also browse our website or contact our support team at support@galloconnect.com for immediate assistance.'')"


section \<open>Provider invocation and failover\<close>

definition lastContent :: "LLMMessage list \<Rightarrow> string" where
  "lastContent messages = (if messages = [] then [] else content (last messages))"

definition tryFallbackProvider ::
  "Env \<Rightarrow> LLMMessage list \<Rightarrow> LLMProviderType \<Rightarrow> string \<times> event list" where
  "tryFallbackProvider w messages fallbackType =
     (if fallbackType = Fallback then (getFallbackResponse w (lastContent messages) None, [])
      else
        (case respond w fallbackType messages None of
           Inr response \<Rightarrow> (response_content response, [ProviderCall fallbackType messages None])
         | Inl err \<Rightarrow>
             (getFallbackResponse w (lastContent messages) None,
              [ProviderCall fallbackType messages None])))"

definition requestMessages :: "Env \<Rightarrow> string \<Rightarrow> LLMMessage list \<Rightarrow> LLMMessage list" where
  "requestMessages w userMessage history =
     createSystemPrompt w # history @ [message w User userMessage]"

text \<open>
  \<open>generateResponse\<close>.  The connection check before the request cannot raise (it ends in
  \<open>true\<close> or \<open>false\<close>, and its value is not read), so the handler of its failure is never
  entered; the tool definitions are those of the tool client as it stands.
\<close>

definition generateResponse ::
  "Env \<Rightarrow> LLMService \<Rightarrow> string \<Rightarrow> LLMMessage list \<Rightarrow> string \<times> event list" where
  "generateResponse w st userMessage history =
     (case config st of
        None \<Rightarrow> (getFallbackResponse w userMessage None, [])
      | Some cfg \<Rightarrow>
          (let messages = requestMessages w userMessage history;
               current = currentProvider st
           in if current = Fallback then (getFallbackResponse w userMessage None, [])
              else
                (let mcpTools = getToolsForLLM w
                 in case respond w current messages (Some mcpTools) of
                      Inr response \<Rightarrow>
                        (let (answer, evs) = handleLLMResponse w st response messages
                         in (answer, ProviderCall current messages (Some mcpTools) # evs))
                    | Inl err \<Rightarrow>
                        (if enableFallback cfg \<and>
                            (case fallbackProvider cfg of
                               None \<Rightarrow> False
                             | Some fb \<Rightarrow> fb \<noteq> current)
                         then
                           (let (answer, evs) =
                                  tryFallbackProvider w messages (the (fallbackProvider cfg))
                            in (answer, ProviderCall current messages (Some mcpTools) # evs))
                         else
                           (getFallbackResponse w userMessage (Some err),
                            [ProviderCall current messages (Some mcpTools)])))))"


section \<open>The turn\<close>

datatype turn_result =
    Returned string string
  | Thrown string

definition orderKeywords :: "string list" where
  "orderKeywords =
     [''place order'', ''place my order'', ''checkout'', ''complete order'', ''finish order'',
      ''buy now'']"

definition stepName :: "step \<Rightarrow> string" where
  "stepName s =
     (case s of Payment \<Rightarrow> ''payment'' | Address \<Rightarrow> ''address'' | Delivery \<Rightarrow> ''delivery''
      | Confirmation \<Rightarrow> ''confirmation'' | Complete \<Rightarrow> ''complete'')"

record OrderFlowSummary =
  summaryActive :: bool
  summaryStep :: "step option"
  summaryData :: json_object
  summaryOptions :: json_object

definition getOrderFlowSummary :: "string \<Rightarrow> LLMService \<Rightarrow> OrderFlowSummary" where
  "getOrderFlowSummary sessionId st =
     (case flow_of st sessionId of
        None \<Rightarrow>
          \<lparr>summaryActive = False, summaryStep = None, summaryData = [], summaryOptions = []\<rparr>
      | Some f \<Rightarrow>
          \<lparr>summaryActive = isActive f, summaryStep = Some (currentStep f),
           summaryData = collectedData f, summaryOptions = availableOptions f\<rparr>)"

definition orderContextMessage :: "Env \<Rightarrow> OrderFlowSummary \<Rightarrow> LLMMessage" where
  "orderContextMessage w orderContext =
     message w System
       (''[ORDER FLOW CONTEXT] Current step: '' @
        (case summaryStep orderContext of None \<Rightarrow> ''null'' | Some s \<Rightarrow> stepName s) @
        '', Collected data: '' @ JSON_stringify w (JObj (summaryData orderContext)) @
        '', Available options: '' @ JSON_stringify w (JObj (summaryOptions orderContext)))"

text \<open>
  The part of \<open>generateResponseWithSession\<close> after the terms check.  The local
  history (\<open>historyArray\<close>) is the array held by the store, so the push of the user
  message shows in it, untrimmed; \<open>generateResponse\<close> always ends in an answer, so the error
  handler of the turn is never entered.
\<close>

definition normalTurn ::
  "Env \<Rightarrow> string \<Rightarrow> string \<Rightarrow> LLMService \<Rightarrow> turn_result \<times> LLMService \<times> event list" where
  "normalTurn w userMessage sessionId st =
     (let userMessageLower = toLowerCase w userMessage;
          isOrderRequest = list_ex (\<lambda>keyword. str_includes userMessageLower keyword) orderKeywords;
          st1 = (if isOrderRequest \<and> \<not> hasActiveOrderFlow sessionId st
                 then initializeOrderFlow sessionId st else st);
          (stored, st2) = getConversationHistory sessionId st1;
          userMsg = message w User userMessage;
          st3 = addToConversationHistory sessionId userMsg st2;
          historyArray = stored @ [userMsg];
          enhancedHistory =
            (if hasActiveOrderFlow sessionId st3
             then historyArray @ [orderContextMessage w (getOrderFlowSummary sessionId st3)]
             else historyArray);
          (response, evs) = generateResponse w st3 userMessage enhancedHistory;
          st4 = addToConversationHistory sessionId (message w Assistant response) st3
      in (Returned response sessionId, st4, evs))"

definition isAccepted :: "Env \<Rightarrow> string \<Rightarrow> bool" where
  "isAccepted w userMessage =
     (let userResponse = trim w (toLowerCase w userMessage)
      in str_includes userResponse ''yes'' \<or> str_includes userResponse ''accept'' \<or>
         str_includes userResponse ''agree'' \<or> str_includes userResponse ''ok'' \<or>
         userResponse = ''y'')"

definition thanksPrefix :: string where
  "thanksPrefix = ''Thank you for accepting the terms and conditions. ''"

definition retryErrorPrefix :: string where
  "retryErrorPrefix =
     ''I've processed your acceptance of the terms, but encountered an error while placing the order: ''"

definition refusal :: string where
  "refusal =
     ''I understand you don't wish to accept the terms and conditions. Unfortunately, I cannot proceed with placing the order without your acceptance of the terms. Is there anything else I can help you with?''"

text \<open>The retried call: the properties the parsed arguments spread into, with
  \<open>termsChecked\<close> set to true, serialised again.\<close>

definition termsCheckedArguments :: "Env \<Rightarrow> json \<Rightarrow> json_object" where
  "termsCheckedArguments w parsed =
     AList.update ''termsChecked'' (JBool True) (ownProperties w parsed)"

definition modifiedToolCall :: "Env \<Rightarrow> LLMToolCall \<Rightarrow> json \<Rightarrow> LLMToolCall" where
  "modifiedToolCall w original parsed =
     original\<lparr>function_arguments :=
                JSON_stringify w (JObj (termsCheckedArguments w parsed))\<rparr>"

text \<open>
  \<open>handleTermsAcceptanceResponse\<close>.  Without a pending operation the source re-enters
  \<open>generateResponseWithSession\<close> with the same session, which is then not waiting and
  takes the normal path.  \<open>JSON.parse\<close> of the stored arguments is outside any handler:
  when it throws, the exception leaves the turn.
\<close>

definition handleTermsAcceptanceResponse ::
  "Env \<Rightarrow> string \<Rightarrow> string \<Rightarrow> LLMService \<Rightarrow> turn_result \<times> LLMService \<times> event list" where
  "handleTermsAcceptanceResponse w userMessage sessionId st =
     (case pending_of st sessionId of
        None \<Rightarrow> normalTurn w userMessage sessionId st
      | Some pendingOrder \<Rightarrow>
          (if isAccepted w userMessage then
             (let st1 = clearPendingOrderContext sessionId st;
                  st2 = addToConversationHistory sessionId (message w User userMessage) st1
              in case JSON_parse w (function_arguments (originalToolCall pendingOrder)) of
                   None \<Rightarrow> (Thrown ''SyntaxError'', st2, [])
                 | Some parsed \<Rightarrow>
                     (case executeMCPTool w
                             (modifiedToolCall w (originalToolCall pendingOrder) parsed) of
                        (Inr result, evs) \<Rightarrow>
                          (let response = formatToolResult w result;
                               answer = thanksPrefix @ response;
                               st3 = addToConversationHistory sessionId
                                       (message w Assistant answer) st2
                           in (Returned answer sessionId, st3, evs))
                      | (Inl err, evs) \<Rightarrow>
                          (let errorResponse = retryErrorPrefix @ err;
                               st3 = addToConversationHistory sessionId
                                       (message w Assistant errorResponse) st2
                           in (Returned errorResponse sessionId, st3, evs))))
           else
             (let st1 = clearPendingOrderContext sessionId st;
                  st2 = addToConversationHistory sessionId (message w User userMessage) st1;
                  st3 = addToConversationHistory sessionId (message w Assistant refusal) st2
              in (Returned refusal sessionId, st3, []))))"

definition generateResponseWithSession ::
  "Env \<Rightarrow> string \<Rightarrow> string option \<Rightarrow> LLMService
     \<Rightarrow> turn_result \<times> LLMService \<times> event list" where
  "generateResponseWithSession w userMessage sessionId st =
     (let sid = (if truthy sessionId then the sessionId else generateSessionId w)
      in if isWaitingForTermsAcceptance sid st
         then handleTermsAcceptanceResponse w userMessage sid st
         else normalTurn w userMessage sid st)"


section \<open>Provider availability cache\<close>

text \<open>
  An availability check answers with an observable: either \<open>of(value)\<close>, which delivers
  the value at once, or the shared observable of a probe (\<open>shareReplay(1)\<close>), which
  delivers the outcome of that probe to every subscriber.  Probes are numbered in the order
  they are created; a caller is taken to subscribe to what it gets, so creating the shared
  observable issues the probe.
\<close>

datatype availability_obs = Immediate bool | SharedProbe nat

record CacheEntry =
  available :: bool
  lastCheck :: nat
  observable :: "nat option"

record Registry =
  availabilityCache :: "LLMProviderType \<rightharpoonup> CacheEntry"
  probes :: "LLMProviderType list"

definition registered :: "LLMProviderType \<Rightarrow> bool" where
  "registered p = (p = Local \<or> p = OpenAI \<or> p = Gemini)"

definition freshCheck :: "nat \<Rightarrow> LLMProviderType \<Rightarrow> Registry \<Rightarrow> availability_obs \<times> Registry" where
  "freshCheck t providerType reg =
     (if \<not> registered providerType then (Immediate False, reg)
      else
        (let probe = length (probes reg)
         in (SharedProbe probe,
             reg\<lparr>availabilityCache := (availabilityCache reg)(providerType \<mapsto>
                    \<lparr>available = False, lastCheck = t, observable = Some probe\<rparr>),
                 probes := probes reg @ [providerType]\<rparr>)))"

definition checkProviderAvailabilityWithCache ::
  "nat \<Rightarrow> LLMProviderType \<Rightarrow> Registry \<Rightarrow> availability_obs \<times> Registry" where
  "checkProviderAvailabilityWithCache t providerType reg =
     (case availabilityCache reg providerType of
        Some cached \<Rightarrow>
          (if int t - int (lastCheck cached) < int CACHE_DURATION then
             (Immediate (available cached), reg)
           else
             (case observable cached of
                Some probe \<Rightarrow> (SharedProbe probe, reg)
              | None \<Rightarrow> freshCheck t providerType reg))
      | None \<Rightarrow> freshCheck t providerType reg)"

text \<open>The probe ends (an error counts as \<open>False\<close>): the result is cached and the ongoing
  observable is cleared.\<close>

definition probeCompleted :: "nat \<Rightarrow> nat \<Rightarrow> bool \<Rightarrow> Registry \<Rightarrow> Registry" where
  "probeCompleted t probe result reg =
     (if probe < length (probes reg) then
        reg\<lparr>availabilityCache := (availabilityCache reg)(probes reg ! probe \<mapsto>
               \<lparr>available = result, lastCheck = t, observable = None\<rparr>)\<rparr>
      else reg)"

text \<open>What a subscriber of the observable sees, given the outcome of each probe.\<close>

definition observed :: "(nat \<Rightarrow> bool) \<Rightarrow> availability_obs \<Rightarrow> bool" where
  "observed outcome obs = (case obs of Immediate b \<Rightarrow> b | SharedProbe probe \<Rightarrow> outcome probe)"

definition emptyRegistry :: Registry where
  "emptyRegistry = \<lparr>availabilityCache = Map.empty, probes = []\<rparr>"


section \<open>Provider adapters: the request sent to the backend\<close>

text \<open>
  The body each adapter posts, as far as messages and tools go (model name, temperature
  and token limits are copied from the configuration and left out).
\<close>

datatype api_type = Ollama | OpenAICompatible

record LLMConfig =
  apiKey :: "string option"
  apiUrl :: "string option"
  model :: "string option"
  apiType :: api_type

datatype request =
    ChatCompletions "LLMMessage list" "LLMFunctionDefinition list option" "string option"
  | OllamaGenerate string
  | GeminiGenerateContent "(string \<times> string) list"

definition personaWithTools :: string where
  "personaWithTools =
     ''You are a helpful customer service assistant for Gallo Connect, an e-commerce platform. '' @
     ''Provide helpful, friendly, and accurate responses to customer inquiries about products, orders, '' @
     ''shipping, returns, and general support. Keep responses concise but informative. '' @
     ''When available, use the provided tools to search for products, check inventory, or perform other actions.''"

definition adapterSystemMessage :: LLMMessage where
  "adapterSystemMessage =
     \<lparr>role = System, content = personaWithTools, timestamp = None, tool_calls = None,
      tool_call_id = None\<rparr>"

definition hasTools :: "LLMFunctionDefinition list option \<Rightarrow> bool" where
  "hasTools tools = (case tools of None \<Rightarrow> False | Some ts \<Rightarrow> length ts > 0)"

definition chatCompletionsBody ::
  "LLMMessage list \<Rightarrow> LLMFunctionDefinition list option \<Rightarrow> request" where
  "chatCompletionsBody messages tools =
     (if hasTools tools
      then ChatCompletions (adapterSystemMessage # messages) tools (Some ''auto'')
      else ChatCompletions (adapterSystemMessage # messages) None None)"

definition OpenAIProvider_generateResponse ::
  "LLMConfig \<Rightarrow> LLMMessage list \<Rightarrow> LLMFunctionDefinition list option \<Rightarrow> string + request" where
  "OpenAIProvider_generateResponse cfg messages tools =
     (if \<not> truthy (apiKey cfg) then Inl ''OpenAI API key not configured''
      else Inr (chatCompletionsBody messages tools))"

definition generateOpenAICompatibleResponse ::
  "LLMMessage list \<Rightarrow> LLMFunctionDefinition list option \<Rightarrow> request" where
  "generateOpenAICompatibleResponse messages tools = chatCompletionsBody messages tools"

definition convertMessagesToPrompt :: "LLMMessage list \<Rightarrow> string" where
  "convertMessagesToPrompt messages =
     ''You are a helpful customer service assistant for Gallo Connect, an e-commerce platform. '' @
     ''Provide helpful, friendly, and accurate responses to customer inquiries.\<newline>\<newline>'' @
     concat (map (\<lambda>m. if role m = User then ''Customer: '' @ content m @ ''\<newline>''
                       else if role m = Assistant then ''Assistant: '' @ content m @ ''\<newline>''
                       else []) messages) @
     ''Assistant: ''"

definition toolLine :: "LLMFunctionDefinition \<Rightarrow> string" where
  "toolLine tool = ''- '' @ def_name tool @ '': '' @ def_description tool"

definition generateOllamaResponse ::
  "LLMMessage list \<Rightarrow> LLMFunctionDefinition list option \<Rightarrow> request" where
  "generateOllamaResponse messages tools =
     (let prompt = convertMessagesToPrompt messages
      in if hasTools tools then
           OllamaGenerate
             (prompt @ ''\<newline>\<newline>Available tools:\<newline>'' @
              join ''\<newline>'' (map toolLine (the tools)) @
              ''\<newline>\<newline>Note: If you need to use any of these tools, please indicate which tool you would like to use and with what parameters.'')
         else OllamaGenerate prompt)"

definition LocalLLMProvider_generateResponse ::
  "LLMConfig \<Rightarrow> LLMMessage list \<Rightarrow> LLMFunctionDefinition list option \<Rightarrow> string + request" where
  "LocalLLMProvider_generateResponse cfg messages tools =
     (if \<not> truthy (apiUrl cfg) \<or> \<not> truthy (model cfg) then
        Inl ''Local LLM not properly configured''
      else if apiType cfg = OpenAICompatible then
        Inr (generateOpenAICompatibleResponse messages tools)
      else Inr (generateOllamaResponse messages tools))"

definition geminiPersona :: string where
  "geminiPersona =
     ''You are a helpful customer service assistant for Gallo Connect, an e-commerce platform. '' @
     ''Provide helpful, friendly, and accurate responses to customer inquiries about products, orders, '' @
     ''shipping, returns, and general support. Keep responses concise but informative.''"

definition convertMessagesToGeminiFormat :: "LLMMessage list \<Rightarrow> (string \<times> string) list" where
  "convertMessagesToGeminiFormat messages =
     [(''user'', geminiPersona),
      (''model'', ''I understand. I'm here to help customers with their Gallo Connect inquiries.'')] @
     concat (map (\<lambda>m. if role m = User then [(''user'', content m)]
                       else if role m = Assistant then [(''model'', content m)]
                       else []) messages)"

definition GeminiProvider_generateResponse ::
  "LLMConfig \<Rightarrow> LLMMessage list \<Rightarrow> LLMFunctionDefinition list option \<Rightarrow> string + request" where
  "GeminiProvider_generateResponse cfg messages tools =
     (if \<not> truthy (apiKey cfg) then Inl ''Google Gemini API key not configured''
      else Inr (GeminiGenerateContent (convertMessagesToGeminiFormat messages)))"

text \<open>The structured tool definitions a request carries, and every text it carries.\<close>

definition requestTools :: "request \<Rightarrow> LLMFunctionDefinition list option" where
  "requestTools r =
     (case r of ChatCompletions ms ts c \<Rightarrow> ts | OllamaGenerate p \<Rightarrow> None
      | GeminiGenerateContent cs \<Rightarrow> None)"

definition requestTexts :: "request \<Rightarrow> string list" where
  "requestTexts r =
     (case r of ChatCompletions ms ts c \<Rightarrow> map content ms | OllamaGenerate p \<Rightarrow> [p]
      | GeminiGenerateContent cs \<Rightarrow> map snd cs)"


section \<open>Vocabulary of the properties\<close>

definition bounded :: "LLMService \<Rightarrow> bool" where
  "bounded st = (\<forall>sessionId. length (history_of st sessionId) \<le> MAX_CONVERSATION_LENGTH)"

definition greeting :: string where
  "greeting =
     ''Hello! Welcome to Gallo Connect. I'm here to help you with any questions about our products, orders, or services. How can I assist you today?''"

text \<open>
  The rule-based responder in the words of the specification: the lower-cased utterance
  is matched against the keywords of the categories greeting, help, product, order,
  return, contact and farewell, in this order; the first category with a keyword that
  occurs in the utterance gives the answer, and the generic catch-all answers when none
  does.
\<close>

definition helpAnswer :: string where
  "helpAnswer =
     ''I'm here to help! I can assist you with:\<newline>'' @ bullet @ '' Product information and recommendations\<newline>''
       @ bullet @ '' Order status and tracking\<newline>'' @ bullet @ '' Shipping and delivery questions\<newline>''
       @ bullet @ '' Returns and exchanges\<newline>'' @ bullet @ '' Account support\<newline>\<newline>What would you like to know more about?''"

definition productAnswer :: string where
  "productAnswer =
     ''I'd be happy to help you find the perfect product! You can browse our full catalog on the website, or tell me what specific type of item you're looking for and I'll guide you in the right direction.''"

definition orderAnswer :: string where
  "orderAnswer =
     ''For order-related inquiries, you can check your order status in your account dashboard. If you need help tracking a shipment or have questions about delivery times, I can guide you through the process. What specific information do you need?''"

definition returnAnswer :: string where
  "returnAnswer =
     ''Our return policy allows returns within 30 days of purchase. I can help you start a return request or answer any questions about our return process. Would you like me to guide you through the steps?''"

definition contactAnswer :: string where
  "contactAnswer =
     ''You can reach our customer support team at:\<newline>'' @ bullet @ '' Email: support@galloconnect.com\<newline>''
       @ bullet @ '' Phone: 1-800-GALLO-1\<newline>'' @ bullet @ '' Hours: Monday-Friday 9AM-6PM EST\<newline>\<newline>Or I can try to help you right here! What do you need assistance with?''"

definition farewellAnswer :: string where
  "farewellAnswer =
     ''Thank you for choosing Gallo Connect! Have a wonderful day, and don't hesitate to reach out if you need any more assistance.''"

definition catchAllAnswer :: string where
  "catchAllAnswer =
     ''Thank you for your question! While I'm working to understand your request better, I'd be happy to help you find what you need. Could you provide a bit more detail about what you're looking for? You can also browse our website or contact our support team at support@galloconnect.com for immediate assistance.''"

definition keywordCategories :: "(string list \<times> string) list" where
  "keywordCategories =
     [([''hello'', ''hi''], greeting),
      ([''help''], helpAnswer),
      ([''product'', ''item'', ''buy''], productAnswer),
      ([''order'', ''shipping'', ''delivery''], orderAnswer),
      ([''return'', ''refund'', ''exchange''], returnAnswer),
      ([''contact'', ''support'', ''phone''], contactAnswer),
      ([''bye'', ''goodbye'', ''thanks''], farewellAnswer)]"

fun firstCategory :: "string \<Rightarrow> (string list \<times> string) list \<Rightarrow> string" where
  "firstCategory lowered [] = catchAllAnswer"
| "firstCategory lowered ((keywords, answer) # categories) =
     (if list_ex (str_includes lowered) keywords then answer
      else firstCategory lowered categories)"

definition keywordResponder :: "string \<Rightarrow> string" where
  "keywordResponder lowered = firstCategory lowered keywordCategories"

text \<open>The answer of the responder when it is given the message of an error: an apology
  that quotes the utterance.\<close>

definition apologyText :: "string \<Rightarrow> string" where
  "apologyText userMessage =
     ''I apologize, but I'm experiencing some technical difficulties with my AI assistant. However, I'm still here to help! You asked about \"''
       @ userMessage @ ''\" - could you please rephrase your question or let me know how I can assist you?''"

text \<open>The provider a turn asks is down: every request to it raises.\<close>

definition providerDown :: "Env \<Rightarrow> LLMProviderType \<Rightarrow> string \<Rightarrow> bool" where
  "providerDown w p err = (\<forall>messages tools. respond w p messages tools = Inl err)"

text \<open>The session a turn works on: the one given, a freshly generated one otherwise.\<close>

definition resolveSessionId :: "Env \<Rightarrow> string option \<Rightarrow> string" where
  "resolveSessionId w sessionId =
     (if truthy sessionId then the sessionId else generateSessionId w)"

fun serverCallName :: "event \<Rightarrow> string list" where
  "serverCallName (ServerCall n a) = [n]"
| "serverCallName (Concurrently traces) =
     concat (map (\<lambda>trace. concat (map serverCallName trace)) traces)"
| "serverCallName e = []"

definition serverCallNames :: "event list \<Rightarrow> string list" where
  "serverCallNames evs = concat (map serverCallName evs)"

fun dispatchedCall :: "event \<Rightarrow> MCPToolCall list" where
  "dispatchedCall (ToolDispatch c) = [c]"
| "dispatchedCall (Concurrently traces) =
     concat (map (\<lambda>trace. concat (map dispatchedCall trace)) traces)"
| "dispatchedCall e = []"

definition dispatchedCalls :: "event list \<Rightarrow> MCPToolCall list" where
  "dispatchedCalls evs = concat (map dispatchedCall evs)"

definition providerCalls :: "event list \<Rightarrow> event list" where
  "providerCalls evs = filter isProviderCall evs"

text \<open>The content of the tool-result message of one call: the formatted result, or the
  description of the error the execution raised.\<close>

definition toolResultContent :: "Env \<Rightarrow> LLMToolCall \<Rightarrow> string" where
  "toolResultContent w toolCall =
     (case fst (executeMCPTool w toolCall) of
        Inr result \<Rightarrow> formatToolResult w result
      | Inl err \<Rightarrow> ''Error executing tool '' @ function_name toolCall @ '': '' @ err)"

definition assistantToolCallMessage :: "Env \<Rightarrow> LLMResponse \<Rightarrow> LLMToolCall list \<Rightarrow> LLMMessage" where
  "assistantToolCallMessage w response toolCalls =
     \<lparr>role = Assistant, content = response_content response, timestamp = Some (now w),
      tool_calls = Some toolCalls, tool_call_id = None\<rparr>"

text \<open>The operations on the session stores.\<close>

datatype operation =
    Advance string
  | UpdateData string json_object
  | StartOrderFlow string
  | CancelOrderFlow string
  | ClearSession string
  | SetPending string LLMToolCall "string option"
  | Turn Env string "string option"
  | Cleanup nat

fun perform :: "operation \<Rightarrow> LLMService \<Rightarrow> LLMService" where
  "perform (Advance s) st = advanceOrderStep s st"
| "perform (UpdateData s d) st = updateOrderFlowData s d st"
| "perform (StartOrderFlow s) st = startOrderFlow s st"
| "perform (CancelOrderFlow s) st = cancelOrderFlow s st"
| "perform (ClearSession s) st = clearConversationHistory s st"
| "perform (SetPending s c m) st = setPendingOrderContext s c m st"
| "perform (Turn w u s) st = fst (snd (generateResponseWithSession w u s st))"
| "perform (Cleanup t) st = cleanupOldSessions t st"

definition isStart :: "operation \<Rightarrow> bool" where
  "isStart op = (case op of StartOrderFlow s \<Rightarrow> True | _ \<Rightarrow> False)"

definition stepIndex :: "OrderFlow \<Rightarrow> int" where
  "stepIndex f = indexOf stepOrder (currentStep f)"

text \<open>One transition of a session's order flow that respects the sequence: an existing
  flow keeps its step or moves to the next one, or is removed; a new flow starts at
  payment.\<close>

definition flowStep :: "OrderFlow option \<Rightarrow> OrderFlow option \<Rightarrow> bool" where
  "flowStep before after =
     (case after of
        None \<Rightarrow> True
      | Some f' \<Rightarrow>
          (case before of
             None \<Rightarrow> currentStep f' = Payment
           | Some f \<Rightarrow> stepIndex f' = stepIndex f \<or> stepIndex f' = stepIndex f + 1))"

definition activeFlows :: "LLMService \<Rightarrow> bool" where
  "activeFlows st = (\<forall>sessionId f. flow_of st sessionId = Some f \<longrightarrow> isActive f)"

definition freshFlow :: OrderFlow where
  "freshFlow =
     \<lparr>isActive = True, currentStep = Payment, collectedData = [], availableOptions = []\<rparr>"

text \<open>The successor in the fixed sequence, the last step being its own successor.\<close>

definition nextStep :: "step \<Rightarrow> step" where
  "nextStep s =
     (case s of Payment \<Rightarrow> Address | Address \<Rightarrow> Delivery | Delivery \<Rightarrow> Confirmation
      | Confirmation \<Rightarrow> Complete | Complete \<Rightarrow> Complete)"

text \<open>The two uniform readings of "the utterance matches the accept tokens
  yes, accept, agree, ok, y", following the words of the specification: the utterance is
  one of the tokens, or the utterance contains one of the tokens.\<close>

definition acceptTokens :: "string list" where
  "acceptTokens = [''yes'', ''accept'', ''agree'', ''ok'', ''y'']"

definition spec_accept_exact :: "Env \<Rightarrow> string \<Rightarrow> bool" where
  "spec_accept_exact w userMessage =
     (trim w (toLowerCase w userMessage) \<in> set acceptTokens)"

definition spec_accept_anywhere :: "Env \<Rightarrow> string \<Rightarrow> bool" where
  "spec_accept_anywhere w userMessage =
     list_ex (\<lambda>token. str_includes (trim w (toLowerCase w userMessage)) token) acceptTokens"

text \<open>Lower-casing by the runtime leaves an occurrence of a lower-case ASCII word in
  place.\<close>

definition keepsLowerCase :: "Env \<Rightarrow> string \<Rightarrow> bool" where
  "keepsLowerCase w k = (\<forall>u. str_includes u k \<longrightarrow> str_includes (toLowerCase w u) k)"

text \<open>The configuration gives a failing provider nowhere to fail over to.\<close>

definition noFailover :: "LLMServiceConfig \<Rightarrow> LLMProviderType \<Rightarrow> bool" where
  "noFailover cfg current =
     (\<not> enableFallback cfg \<or> fallbackProvider cfg = None \<or> fallbackProvider cfg = Some current)"

text \<open>What the tool client resolves with for a call it sends to the server: the normalised
  result, or an error result that describes the failure of the transport.\<close>

definition serverResult :: "Env \<Rightarrow> MCPToolCall \<Rightarrow> MCPToolResult" where
  "serverResult w c =
     (case sdkCallTool w (mcp_name c) (enhancedArguments w c) of
        Inr raw \<Rightarrow> sdk_formatToolResult w raw
      | Inl err \<Rightarrow>
          \<lparr>result_content =
             [textPart (''Error executing tool: '' @
                (case err of Some m \<Rightarrow> m | None \<Rightarrow> ''Unknown error''))],
           isError = True\<rparr>)"


section \<open>Concrete inputs\<close>

text \<open>
  The string operations of the runtime restricted to ASCII text, which is all the inputs
  of this section contain: lower-casing folds the letters A to Z, trimming removes the six
  ASCII white-space characters at both ends, and every character is one code unit.
\<close>

definition lowerCaseTable :: "(char \<times> char) list" where
  "lowerCaseTable = zip ''ABCDEFGHIJKLMNOPQRSTUVWXYZ'' ''abcdefghijklmnopqrstuvwxyz''"

definition lowerChar :: "char \<Rightarrow> char" where
  "lowerChar c = (case map_of lowerCaseTable c of None \<Rightarrow> c | Some l \<Rightarrow> l)"

definition asciiToLowerCase :: "string \<Rightarrow> string" where
  "asciiToLowerCase s = map lowerChar s"


definition isSpace :: "char \<Rightarrow> bool" where
  "isSpace c = (c \<in> {CHR '' '', CHR 0x09, CHR 0x0A, CHR 0x0B, CHR 0x0C, CHR 0x0D})"

definition asciiTrim :: "string \<Rightarrow> string" where
  "asciiTrim s = rev (dropWhile isSpace (rev (dropWhile isSpace s)))"

definition asciiCodeUnits :: "string \<Rightarrow> string list" where
  "asciiCodeUnits s = map (\<lambda>c. [c]) s"

definition demoTypeError :: "json \<Rightarrow> string" where
  "demoTypeError v =
     (if v = JNull then ''Cannot set properties of null (setting 'baseSiteId')''
      else ''Cannot create property 'baseSiteId' on a primitive value'')"

definition termsText :: string where
  "termsText = ''Order requires terms and conditions acceptance''"

definition demoTool :: MCPTool where
  "demoTool =
     \<lparr>tool_name = ''place-order'', tool_description = ''Place the order for the active cart'',
      tool_serverId = ''commerce'', inputSchema = JObj []\<rparr>"

definition demoOrderCall :: LLMToolCall where
  "demoOrderCall =
     \<lparr>call_id = ''call_1'', function_name = ''mcp_place-order'', function_arguments = ''{}''\<rparr>"

definition demoParse :: "string \<Rightarrow> json option" where
  "demoParse s =
     (if s = ''{}'' then Some (JObj [])
      else if s = ''{\"termsChecked\":true}'' then Some (JObj [(''termsChecked'', JBool True)])
      else if s = ''null'' then Some JNull
      else None)"

definition demoStringify :: "json \<Rightarrow> string" where
  "demoStringify j =
     (if j = JObj [(''termsChecked'', JBool True)] then ''{\"termsChecked\":true}'' else ''{}'')"

text \<open>A tool server that places the order once the terms are checked and refuses it with
  the terms error otherwise.\<close>

definition demoServer :: "string \<Rightarrow> json_object \<Rightarrow> string option + RawResult" where
  "demoServer name args =
     (if map_of args ''termsChecked'' = Some (JBool True)
      then Inr (RawWithContent [textPart ''Order 00012345 placed''] None)
      else Inr (RawWithContent [textPart termsText] (Some True)))"

text \<open>A backend that asks for the order tool when it is offered tools, and answers in
  words when it is not.\<close>

definition demoBackend ::
  "LLMProviderType \<Rightarrow> LLMMessage list \<Rightarrow> LLMFunctionDefinition list option
     \<Rightarrow> string + LLMResponse" where
  "demoBackend p messages tools =
     (if tools = None then
        Inr \<lparr>response_content = ''The order needs your acceptance of the terms and conditions.'',
             response_tool_calls = None\<rparr>
      else Inr \<lparr>response_content = [], response_tool_calls = Some [demoOrderCall]\<rparr>)"

definition demoEnv :: Env where
  "demoEnv =
     \<lparr>now = 1000, randomSuffix = ''k3j9x2m1q'',
      toLowerCase = asciiToLowerCase, trim = asciiTrim, codeUnits = asciiCodeUnits,
      baseSite = Some ''powertools-spa'',
      contextualizedPrompt = ''You are a helpful AI assistant for Gallo Connect'',
      JSON_parse = demoParse, JSON_stringify = demoStringify, typeErrorMessage = demoTypeError,
      stringify_part = (\<lambda>c. ''{}''), mcpConnectionHealthy = True,
      clientInitialized = True, availableTools = [demoTool],
      windowOrigin = Some ''https://localhost:4200'', accessToken = None,
      activeCartCode = Some ''00001000'', sdkCallTool = demoServer, respond = demoBackend\<rparr>"

definition demoConfig :: LLMServiceConfig where
  "demoConfig = \<lparr>primaryProvider = OpenAI, fallbackProvider = None, enableFallback = False\<rparr>"

definition demoService :: LLMService where
  "demoService =
     \<lparr>conversationHistory = Map.empty, sessionContext = Map.empty,
      currentProvider = OpenAI, config = Some demoConfig\<rparr>"

definition noProviderService :: LLMService where
  "noProviderService = demoService\<lparr>currentProvider := Fallback\<rparr>"




definition demoMcpCall :: MCPToolCall where
  "demoMcpCall =
     \<lparr>mcp_name = ''place-order'',
      mcp_arguments = [(''baseSiteId'', JStr ''powertools-spa'')],
      mcp_serverId = ''default''\<rparr>"

definition demoServerArguments :: json_object where
  "demoServerArguments =
     [(''baseSiteId'', JStr ''powertools-spa''),
      (''baseSiteUrl'', JStr ''https://localhost:4200''),
      (''cartId'', JStr ''00001000'')]"


definition placedResult :: MCPToolResult where
  "placedResult = \<lparr>result_content = [textPart ''Order 00012345 placed''], isError = False\<rparr>"

definition pendingService :: LLMService where
  "pendingService = setPendingOrderContext ''s1'' demoOrderCall (Some termsText) demoService"

definition unreachableEnv :: Env where
  "unreachableEnv = demoEnv\<lparr>mcpConnectionHealthy := False\<rparr>"


definition startedService :: LLMService where
  "startedService = startOrderFlow ''s1'' demoService"

definition completedService :: LLMService where
  "completedService =
     advanceOrderStep ''s1'' (advanceOrderStep ''s1'' (advanceOrderStep ''s1''
       (advanceOrderStep ''s1'' startedService)))"


definition staleService :: LLMService where
  "staleService =
     demoService
       \<lparr>conversationHistory := [''s1'' \<mapsto> [message demoEnv User ''place my order'']],
        sessionContext :=
          [''s1'' \<mapsto>
             \<lparr>pendingOrderOperation =
                Some \<lparr>originalToolCall = demoOrderCall, waitingForTermsAcceptance = True,
                      termsMessage = Some termsText\<rparr>,
              orderFlow = Some freshFlow\<rparr>]\<rparr>"

text \<open>One millisecond more than the session timeout after the last message of the stale
  session, which is stamped 1000.\<close>

definition sweepTime :: nat where
  "sweepTime = 1000 + SESSION_TIMEOUT + 1"

definition firstCheck :: "availability_obs \<times> Registry" where
  "firstCheck = checkProviderAvailabilityWithCache 0 OpenAI emptyRegistry"

definition secondCheck :: "availability_obs \<times> Registry" where
  "secondCheck = checkProviderAvailabilityWithCache 10 OpenAI (snd firstCheck)"

definition geminiConfig :: LLMConfig where
  "geminiConfig =
     \<lparr>apiKey = Some ''key'', apiUrl = Some ''https://generativelanguage.googleapis.com/v1beta'',
      model = Some ''gemini-pro'', apiType = Ollama\<rparr>"

definition demoMessages :: "LLMMessage list" where
  "demoMessages = [message demoEnv User ''place my order'']"

definition demoToolDefs :: "LLMFunctionDefinition list" where
  "demoToolDefs = [toLLMTool demoTool]"

text \<open>An environment whose providers all fail with a network error, and a service
  configured as the storefront configures it: a local model first, the built-in fallback
  behind it.\<close>

definition downEnv :: Env where
  "downEnv = demoEnv\<lparr>respond := (\<lambda>p messages tools. Inl ''Network error'')\<rparr>"

definition failoverConfig :: LLMServiceConfig where
  "failoverConfig =
     \<lparr>primaryProvider = Local, fallbackProvider = Some Fallback, enableFallback = True\<rparr>"

definition failoverService :: LLMService where
  "failoverService = demoService\<lparr>currentProvider := Local, config := Some failoverConfig\<rparr>"

definition secondConfig :: LLMServiceConfig where
  "secondConfig =
     \<lparr>primaryProvider = Local, fallbackProvider = Some OpenAI, enableFallback = True\<rparr>"

definition secondService :: LLMService where
  "secondService = demoService\<lparr>currentProvider := Local, config := Some secondConfig\<rparr>"

text \<open>A batch of three tool calls, the last under a name without the prefix; a backend
  that asks for the batch in every response; a tool server that cannot be reached.\<close>

definition searchCall :: LLMToolCall where
  "searchCall =
     \<lparr>call_id = ''call_2'', function_name = ''mcp_search-products'',
      function_arguments = ''{}''\<rparr>"

definition lookupCall :: LLMToolCall where
  "lookupCall =
     \<lparr>call_id = ''call_3'', function_name = ''lookup'', function_arguments = ''{}''\<rparr>"

definition batchCalls :: "LLMToolCall list" where
  "batchCalls = [demoOrderCall, searchCall, lookupCall]"

definition batchResponse :: LLMResponse where
  "batchResponse =
     \<lparr>response_content = ''Let me look that up.'', response_tool_calls = Some batchCalls\<rparr>"

definition eagerBackend ::
  "LLMProviderType \<Rightarrow> LLMMessage list \<Rightarrow> LLMFunctionDefinition list option
     \<Rightarrow> string + LLMResponse" where
  "eagerBackend p messages tools = Inr batchResponse"

definition offlineEnv :: Env where
  "offlineEnv =
     demoEnv\<lparr>sdkCallTool := (\<lambda>name args. Inl (Some ''Network error'')),
             respond := eagerBackend\<rparr>"

definition networkErrorText :: string where
  "networkErrorText = cross_mark @ '' Tool Error: Error executing tool: Network error''"

definition searchMcpCall :: MCPToolCall where
  "searchMcpCall =
     \<lparr>mcp_name = ''search-products'',
      mcp_arguments = [(''baseSiteId'', JStr ''powertools-spa'')],
      mcp_serverId = ''default''\<rparr>"

definition networkErrorResult :: MCPToolResult where
  "networkErrorResult =
     \<lparr>result_content = [textPart ''Error executing tool: Network error''], isError = True\<rparr>"

definition searchServerArguments :: json_object where
  "searchServerArguments =
     [(''baseSiteId'', JStr ''powertools-spa''),
      (''baseSiteUrl'', JStr ''https://localhost:4200'')]"

definition batchRequest :: "LLMMessage list" where
  "batchRequest = requestMessages offlineEnv ''place my order'' []"

definition batchFollowUp :: "LLMMessage list" where
  "batchFollowUp =
     batchRequest @
     [\<lparr>role = Assistant, content = ''Let me look that up.'', timestamp = Some 1000,
       tool_calls = Some batchCalls, tool_call_id = None\<rparr>,
      \<lparr>role = Tool, content = networkErrorText, timestamp = Some 1000, tool_calls = None,
       tool_call_id = Some ''call_1''\<rparr>,
      \<lparr>role = Tool, content = networkErrorText, timestamp = Some 1000, tool_calls = None,
       tool_call_id = Some ''call_2''\<rparr>,
      \<lparr>role = Tool,
       content = ''Error executing tool lookup: Invalid MCP function name: lookup'',
       timestamp = Some 1000, tool_calls = None, tool_call_id = Some ''call_3''\<rparr>]"


section \<open>Strings: basic facts\<close>


lemma generateSessionId_nonempty: "generateSessionId w \<noteq> []"
  by (simp add: generateSessionId_def)

lemma resolve_nonempty: "resolveSessionId w sessionId \<noteq> []"
  by (auto simp: resolveSessionId_def truthy_def generateSessionId_nonempty split: option.splits)


section \<open>What the history operations keep\<close>








lemma sessionContext_add [simp]:
  "sessionContext (addToConversationHistory sid m st) = sessionContext st"
  by (simp add: addToConversationHistory_def getConversationHistory_def split: option.split)

lemma currentProvider_add [simp]:
  "currentProvider (addToConversationHistory sid m st) = currentProvider st"
  by (simp add: addToConversationHistory_def getConversationHistory_def split: option.split)

lemma config_add [simp]: "config (addToConversationHistory sid m st) = config st"
  by (simp add: addToConversationHistory_def getConversationHistory_def split: option.split)

lemma sessionContext_get [simp]:
  "sessionContext (snd (getConversationHistory sid st)) = sessionContext st"
  by (simp add: getConversationHistory_def split: option.split)

lemma currentProvider_get [simp]:
  "currentProvider (snd (getConversationHistory sid st)) = currentProvider st"
  by (simp add: getConversationHistory_def split: option.split)

lemma config_get [simp]: "config (snd (getConversationHistory sid st)) = config st"
  by (simp add: getConversationHistory_def split: option.split)

lemma currentProvider_init [simp]:
  "currentProvider (initializeOrderFlow sid st) = currentProvider st"
  by (simp add: initializeOrderFlow_def Let_def)

lemma config_init [simp]: "config (initializeOrderFlow sid st) = config st"
  by (simp add: initializeOrderFlow_def Let_def)

lemma history_of_ctx [simp]: "history_of (st\<lparr>sessionContext := c\<rparr>) = history_of st"
  by (rule ext) (simp add: history_of_def)

lemma bounded_ctx [simp]: "bounded (st\<lparr>sessionContext := c\<rparr>) = bounded st"
  by (simp add: bounded_def)











section \<open>The rule-based responder\<close>

lemma startsWith_iff: "startsWith s p \<longleftrightarrow> (\<exists>b. s = p @ b)"
proof (induction s p rule: startsWith.induct)
  case (1 s)
  show ?case by simp
next
  case (2 p ps)
  show ?case by simp
next
  case (3 c cs p ps)
  then show ?case by auto
qed

lemma str_includes_iff: "str_includes s sub \<longleftrightarrow> (\<exists>a b. s = a @ sub @ b)"
proof (induction s)
  case Nil
  show ?case by auto
next
  case (Cons c cs)
  show ?case
  proof
    assume "str_includes (c # cs) sub"
    then consider "startsWith (c # cs) sub" | "str_includes cs sub" by auto
    then show "\<exists>a b. c # cs = a @ sub @ b"
    proof cases
      case 1
      then obtain b where "c # cs = sub @ b" using startsWith_iff by blast
      then have "c # cs = [] @ sub @ b" by simp
      then show ?thesis by blast
    next
      case 2
      then obtain a b where "cs = a @ sub @ b" using Cons.IH by blast
      then have "c # cs = (c # a) @ sub @ b" by simp
      then show ?thesis by blast
    qed
  next
    assume "\<exists>a b. c # cs = a @ sub @ b"
    then obtain a b where ab: "c # cs = a @ sub @ b" by blast
    show "str_includes (c # cs) sub"
    proof (cases a)
      case Nil
      then have "startsWith (c # cs) sub" using ab startsWith_iff by auto
      then show ?thesis by simp
    next
      case (Cons x xs)
      then have "cs = xs @ sub @ b" using ab by simp
      then have "str_includes cs sub" using Cons.IH by blast
      then show ?thesis by simp
    qed
  qed
qed

lemma asciiToLowerCase_append [simp]:
  "asciiToLowerCase (a @ b) = asciiToLowerCase a @ asciiToLowerCase b"
  by (simp add: asciiToLowerCase_def)

lemma ascii_keeps:
  assumes "asciiToLowerCase k = k"
  shows "str_includes u k \<longrightarrow> str_includes (asciiToLowerCase u) k"
proof
  assume "str_includes u k"
  then obtain a b where "u = a @ k @ b" using str_includes_iff by blast
  then have "asciiToLowerCase u = asciiToLowerCase a @ k @ asciiToLowerCase b"
    using assms by simp
  then show "str_includes (asciiToLowerCase u) k" using str_includes_iff by blast
qed

lemma demoEnv_strings:
  "toLowerCase demoEnv = asciiToLowerCase" "trim demoEnv = asciiTrim"
  "codeUnits demoEnv = asciiCodeUnits"
  by (simp_all add: demoEnv_def)

lemma lower_hello: "asciiToLowerCase ''hello'' = ''hello''"
  by (simp add: asciiToLowerCase_def lowerChar_def lowerCaseTable_def)

lemma demo_keeps_hello: "keepsLowerCase demoEnv ''hello''"
  unfolding keepsLowerCase_def demoEnv_strings using ascii_keeps [OF lower_hello] by blast

lemma fallback_eq:
  "getFallbackResponse w u e =
     (if truthy e then apologyText u else keywordResponder (toLowerCase w u))"
  by (simp add: getFallbackResponse_def Let_def apologyText_def keywordResponder_def
      keywordCategories_def greeting_def helpAnswer_def productAnswer_def orderAnswer_def
      returnAnswer_def contactAnswer_def farewellAnswer_def catchAllAnswer_def)

lemma keywordResponder_nonempty: "keywordResponder l \<noteq> []"
  by (simp add: keywordResponder_def keywordCategories_def greeting_def helpAnswer_def
      productAnswer_def orderAnswer_def returnAnswer_def contactAnswer_def farewellAnswer_def
      catchAllAnswer_def)

lemma fallback_nonempty: "getFallbackResponse w u e \<noteq> []"
  by (simp add: fallback_eq keywordResponder_nonempty apologyText_def)

lemma fallback_hello:
  "str_includes (toLowerCase w u) ''hello'' \<Longrightarrow> getFallbackResponse w u None = greeting"
  by (simp add: getFallbackResponse_def Let_def greeting_def truthy_def)

lemma greeting_phrase: "str_includes greeting ''Hello''"
  by (simp add: greeting_def)

lemma generateResponse_no_config:
  "config st = None \<Longrightarrow> generateResponse w st u h = (getFallbackResponse w u None, [])"
  by (simp add: generateResponse_def)

lemma generateResponse_fallback:
  "currentProvider st = Fallback \<Longrightarrow>
   generateResponse w st u h = (getFallbackResponse w u None, [])"
  by (simp add: generateResponse_def Let_def split: option.split)

lemma lastContent_request [simp]: "lastContent (requestMessages w u h) = u"
  by (simp add: lastContent_def requestMessages_def message_def)

lemma generateResponse_down_builtin:
  assumes "config st = Some cfg" and "currentProvider st \<noteq> Fallback"
      and "providerDown w (currentProvider st) err"
      and "enableFallback cfg" and "fallbackProvider cfg = Some Fallback"
  shows "fst (generateResponse w st u h) = getFallbackResponse w u None"
  using assms
  by (simp add: generateResponse_def Let_def providerDown_def tryFallbackProvider_def)

lemma generateResponse_down_second:
  assumes "config st = Some cfg" and "currentProvider st \<noteq> Fallback"
      and "providerDown w (currentProvider st) err"
      and "enableFallback cfg" and "fallbackProvider cfg = Some fb"
      and "fb \<noteq> currentProvider st" and "providerDown w fb err'"
  shows "fst (generateResponse w st u h) = getFallbackResponse w u None"
  using assms
  by (simp add: generateResponse_def Let_def providerDown_def tryFallbackProvider_def)

lemma generateResponse_down_alone:
  assumes "config st = Some cfg" and "currentProvider st \<noteq> Fallback"
      and "providerDown w (currentProvider st) err"
      and "noFailover cfg (currentProvider st)"
  shows "fst (generateResponse w st u h) = getFallbackResponse w u (Some err)"
  using assms
  by (auto simp add: generateResponse_def Let_def providerDown_def noFailover_def
      split: option.split)


lemma normalTurn_answer:
  assumes "\<And>st3 h. config st3 = config st \<Longrightarrow> currentProvider st3 = currentProvider st \<Longrightarrow>
             fst (generateResponse w st3 u h) = a"
  shows "\<exists>st' evs. normalTurn w u sid st = (Returned a sid, st', evs)"
  by (simp add: normalTurn_def Let_def split_beta assms)

lemma normalTurn_no_provider:
  assumes "config st = None \<or> currentProvider st = Fallback"
  shows "\<exists>st'. normalTurn w u sid st = (Returned (getFallbackResponse w u None) sid, st', [])"
  using assms
proof
  assume "config st = None"
  then show ?thesis
    by (simp add: normalTurn_def Let_def split_beta generateResponse_no_config)
next
  assume "currentProvider st = Fallback"
  then show ?thesis
    by (simp add: normalTurn_def Let_def split_beta generateResponse_fallback)
qed

lemma turn_normal:
  "\<not> isWaitingForTermsAcceptance (resolveSessionId w sessionId) st \<Longrightarrow>
   generateResponseWithSession w u sessionId st =
     normalTurn w u (resolveSessionId w sessionId) st"
  by (simp add: generateResponseWithSession_def Let_def resolveSessionId_def)

lemma turn_no_provider:
  assumes "config st = None \<or> currentProvider st = Fallback"
      and "\<not> isWaitingForTermsAcceptance (resolveSessionId w sessionId) st"
  shows "\<exists>st'. generateResponseWithSession w u sessionId st =
           (Returned (getFallbackResponse w u None) (resolveSessionId w sessionId), st', [])"
  using assms normalTurn_no_provider [of st w u "resolveSessionId w sessionId"]
  by (simp add: turn_normal)

lemma turn_down_failover:
  assumes "\<not> isWaitingForTermsAcceptance (resolveSessionId w sessionId) st"
      and "config st = Some cfg" and "currentProvider st \<noteq> Fallback"
      and "providerDown w (currentProvider st) err"
      and "enableFallback cfg"
      and "fallbackProvider cfg = Some Fallback \<or>
           (\<exists>fb err'. fallbackProvider cfg = Some fb \<and> fb \<noteq> currentProvider st \<and>
                      providerDown w fb err')"
  shows "\<exists>st' evs. generateResponseWithSession w u sessionId st =
           (Returned (getFallbackResponse w u None) (resolveSessionId w sessionId), st', evs)"
proof -
  have "\<And>st3 h. config st3 = config st \<Longrightarrow> currentProvider st3 = currentProvider st \<Longrightarrow>
          fst (generateResponse w st3 u h) = getFallbackResponse w u None"
  proof -
    fix st3 :: LLMService and h :: "LLMMessage list"
    assume c: "config st3 = config st" and p: "currentProvider st3 = currentProvider st"
    from assms(6) show "fst (generateResponse w st3 u h) = getFallbackResponse w u None"
    proof
      assume "fallbackProvider cfg = Some Fallback"
      then show ?thesis
        using generateResponse_down_builtin [of st3 cfg w err u h] assms c p by simp
    next
      assume "\<exists>fb err'. fallbackProvider cfg = Some fb \<and> fb \<noteq> currentProvider st \<and>
                providerDown w fb err'"
      then obtain fb err' where "fallbackProvider cfg = Some fb" "fb \<noteq> currentProvider st"
        "providerDown w fb err'" by blast
      then show ?thesis
        using generateResponse_down_second [of st3 cfg w err fb err' u h] assms c p by simp
    qed
  qed
  then show ?thesis
    using normalTurn_answer [of st w u "getFallbackResponse w u None" "resolveSessionId w sessionId"]
      assms(1) by (simp add: turn_normal)
qed

lemma turn_down_alone:
  assumes "\<not> isWaitingForTermsAcceptance (resolveSessionId w sessionId) st"
      and "config st = Some cfg" and "currentProvider st \<noteq> Fallback"
      and "providerDown w (currentProvider st) err"
      and "noFailover cfg (currentProvider st)"
  shows "\<exists>st' evs. generateResponseWithSession w u sessionId st =
           (Returned (getFallbackResponse w u (Some err)) (resolveSessionId w sessionId), st', evs)"
proof -
  have "\<And>st3 h. config st3 = config st \<Longrightarrow> currentProvider st3 = currentProvider st \<Longrightarrow>
          fst (generateResponse w st3 u h) = getFallbackResponse w u (Some err)"
    using generateResponse_down_alone [of _ cfg w err u] assms by simp
  then show ?thesis
    using normalTurn_answer [of st w u "getFallbackResponse w u (Some err)"
        "resolveSessionId w sessionId"] assms(1)
    by (simp add: turn_normal)
qed

text \<open>
  Claim C5.  The rule-based responder is a total function whose answer is never empty.
  Without an error text it answers by keyword matching on the lower-cased utterance, the
  categories greeting, help, product, order, return, contact and farewell tried in this
  order and the generic catch-all last; given a non-empty error text it answers with an
  apology that quotes the utterance, whatever the keywords.  An utterance that contains
  "hello" (in any letter case the runtime folds) gets the greeting, which contains
  "Hello".  A turn of a session that is not waiting for a terms decision returns the
  session id (the one given, or a generated, non-empty one) with the responder's answer
  to the utterance: the keyword answer when no configuration is loaded, when the active
  provider is the built-in fallback, and when the active provider is down and failover
  leads to the built-in fallback or to a second provider that is down too; the answer to
  the utterance and the error when the active provider is down and there is no failover.
\<close>

theorem fallback_always_answers:
  "getFallbackResponse w u e \<noteq> []
   \<and> getFallbackResponse w u e =
       (if truthy e then apologyText u else keywordResponder (toLowerCase w u))
   \<and> (str_includes (toLowerCase w u) ''hello'' \<or>
       keepsLowerCase w ''hello'' \<and> str_includes u ''hello'' \<longrightarrow>
        getFallbackResponse w u None = greeting \<and> str_includes greeting ''Hello'')
   \<and> (\<not> isWaitingForTermsAcceptance (resolveSessionId w sessionId) st \<longrightarrow>
        resolveSessionId w sessionId \<noteq> []
        \<and> (config st = None \<or> currentProvider st = Fallback \<longrightarrow>
             (\<exists>st'. generateResponseWithSession w u sessionId st =
                (Returned (getFallbackResponse w u None) (resolveSessionId w sessionId), st', [])))
        \<and> (\<forall>cfg err.
              config st = Some cfg \<and> currentProvider st \<noteq> Fallback \<and>
              providerDown w (currentProvider st) err \<longrightarrow>
              (enableFallback cfg \<and>
               (fallbackProvider cfg = Some Fallback \<or>
                (\<exists>fb err'. fallbackProvider cfg = Some fb \<and> fb \<noteq> currentProvider st \<and>
                           providerDown w fb err')) \<longrightarrow>
                 (\<exists>st' evs. generateResponseWithSession w u sessionId st =
                    (Returned (getFallbackResponse w u None) (resolveSessionId w sessionId),
                     st', evs)))
              \<and> (noFailover cfg (currentProvider st) \<longrightarrow>
                 (\<exists>st' evs. generateResponseWithSession w u sessionId st =
                    (Returned (getFallbackResponse w u (Some err))
                       (resolveSessionId w sessionId), st', evs)))))"
proof -
  have a: "getFallbackResponse w u e \<noteq> []" by (rule fallback_nonempty)
  have b: "getFallbackResponse w u e =
       (if truthy e then apologyText u else keywordResponder (toLowerCase w u))"
    by (rule fallback_eq)
  have c: "str_includes (toLowerCase w u) ''hello'' \<or>
       keepsLowerCase w ''hello'' \<and> str_includes u ''hello'' \<longrightarrow>
        getFallbackResponse w u None = greeting \<and> str_includes greeting ''Hello''"
    using fallback_hello [of w u] greeting_phrase by (auto simp: keepsLowerCase_def)
  have d: "\<not> isWaitingForTermsAcceptance (resolveSessionId w sessionId) st \<longrightarrow>
        resolveSessionId w sessionId \<noteq> []
        \<and> (config st = None \<or> currentProvider st = Fallback \<longrightarrow>
             (\<exists>st'. generateResponseWithSession w u sessionId st =
                (Returned (getFallbackResponse w u None) (resolveSessionId w sessionId), st', [])))
        \<and> (\<forall>cfg err.
              config st = Some cfg \<and> currentProvider st \<noteq> Fallback \<and>
              providerDown w (currentProvider st) err \<longrightarrow>
              (enableFallback cfg \<and>
               (fallbackProvider cfg = Some Fallback \<or>
                (\<exists>fb err'. fallbackProvider cfg = Some fb \<and> fb \<noteq> currentProvider st \<and>
                           providerDown w fb err')) \<longrightarrow>
                 (\<exists>st' evs. generateResponseWithSession w u sessionId st =
                    (Returned (getFallbackResponse w u None) (resolveSessionId w sessionId),
                     st', evs)))
              \<and> (noFailover cfg (currentProvider st) \<longrightarrow>
                 (\<exists>st' evs. generateResponseWithSession w u sessionId st =
                    (Returned (getFallbackResponse w u (Some err))
                       (resolveSessionId w sessionId), st', evs))))"
    using resolve_nonempty [of w sessionId] turn_no_provider [of st w sessionId u]
      turn_down_failover [of w sessionId st _ _ u] turn_down_alone [of w sessionId st _ _ u]
    by blast
  show ?thesis using a b c d by blast
qed

lemma demo_sid: "resolveSessionId demoEnv None = ''session_1000_k3j9x2m1q''"
  by (simp add: resolveSessionId_def truthy_def generateSessionId_def demoEnv_def digit_def
      show_nat.simps [of 1000] show_nat.simps [of 100] show_nat.simps [of 10]
      show_nat.simps [of 1] show_nat.simps [of "Suc 0"])

lemma downEnv_fields:
  "toLowerCase downEnv = asciiToLowerCase" "now downEnv = 1000"
  "randomSuffix downEnv = ''k3j9x2m1q''"
  "respond downEnv = (\<lambda>p messages tools. Inl ''Network error'')"
  by (simp_all add: downEnv_def demoEnv_def)

lemma down_sid: "resolveSessionId downEnv None = ''session_1000_k3j9x2m1q''"
  by (simp add: resolveSessionId_def truthy_def generateSessionId_def downEnv_fields digit_def
      show_nat.simps [of 1000] show_nat.simps [of 100] show_nat.simps [of 10]
      show_nat.simps [of 1] show_nat.simps [of "Suc 0"])

lemma down_providerDown: "providerDown downEnv p ''Network error''"
  by (simp add: providerDown_def downEnv_fields)

theorem fallback_always_answers_witness:
  "str_includes ''hello'' ''hello''
   \<and> keepsLowerCase demoEnv ''hello''
   \<and> currentProvider noProviderService = Fallback
   \<and> \<not> isWaitingForTermsAcceptance (resolveSessionId demoEnv None) noProviderService
   \<and> getFallbackResponse demoEnv ''hello'' None = greeting
   \<and> str_includes greeting ''Hello''
   \<and> (\<exists>st'. generateResponseWithSession demoEnv ''hello'' None noProviderService =
         (Returned greeting ''session_1000_k3j9x2m1q'', st', []))
   \<and> getFallbackResponse demoEnv ''Where is my ORDER?'' None = orderAnswer
   \<and> getFallbackResponse demoEnv ''xyz'' None = catchAllAnswer
   \<and> config failoverService = Some failoverConfig
   \<and> currentProvider failoverService = Local
   \<and> providerDown downEnv Local ''Network error''
   \<and> enableFallback failoverConfig
   \<and> fallbackProvider failoverConfig = Some Fallback
   \<and> \<not> isWaitingForTermsAcceptance (resolveSessionId downEnv None) failoverService
   \<and> (\<exists>st' evs. generateResponseWithSession downEnv ''hello'' None failoverService =
         (Returned greeting ''session_1000_k3j9x2m1q'', st', evs))
   \<and> config secondService = Some secondConfig
   \<and> currentProvider secondService = Local
   \<and> enableFallback secondConfig
   \<and> fallbackProvider secondConfig = Some OpenAI
   \<and> providerDown downEnv OpenAI ''Network error''
   \<and> \<not> isWaitingForTermsAcceptance (resolveSessionId downEnv None) secondService
   \<and> (\<exists>st' evs. generateResponseWithSession downEnv ''hello'' None secondService =
         (Returned greeting ''session_1000_k3j9x2m1q'', st', evs))
   \<and> config demoService = Some demoConfig
   \<and> currentProvider demoService = OpenAI
   \<and> noFailover demoConfig OpenAI
   \<and> \<not> isWaitingForTermsAcceptance (resolveSessionId downEnv None) demoService
   \<and> (\<exists>st' evs. generateResponseWithSession downEnv ''xyz'' None demoService =
         (Returned (apologyText ''xyz'') ''session_1000_k3j9x2m1q'', st', evs))"
proof -
  have h1: "str_includes ''hello'' ''hello''" by simp
  have h1': "keepsLowerCase demoEnv ''hello''" by (rule demo_keeps_hello)
  have h1'': "keepsLowerCase downEnv ''hello''"
    using demo_keeps_hello by (simp add: keepsLowerCase_def downEnv_fields demoEnv_strings)
  have h2: "currentProvider noProviderService = Fallback"
    by (simp add: noProviderService_def)
  have h3: "\<not> isWaitingForTermsAcceptance (resolveSessionId demoEnv None) noProviderService"
    by (simp add: isWaitingForTermsAcceptance_def noProviderService_def demoService_def)
  note T = fallback_always_answers [of demoEnv "''hello''" None None noProviderService]
  have c1: "getFallbackResponse demoEnv ''hello'' None = greeting \<and> str_includes greeting ''Hello''"
    using T h1 h1' by blast
  have c2: "\<exists>st'. generateResponseWithSession demoEnv ''hello'' None noProviderService =
         (Returned (getFallbackResponse demoEnv ''hello'' None) (resolveSessionId demoEnv None),
          st', [])"
    using T h2 h3 by blast
  have c3: "getFallbackResponse demoEnv ''Where is my ORDER?'' None = orderAnswer"
    using fallback_always_answers [of demoEnv "''Where is my ORDER?''" None None noProviderService]
    by (simp add: truthy_def demoEnv_strings asciiToLowerCase_def lowerChar_def
        lowerCaseTable_def keywordResponder_def keywordCategories_def)
  have c4: "getFallbackResponse demoEnv ''xyz'' None = catchAllAnswer"
    using fallback_always_answers [of demoEnv "''xyz''" None None noProviderService]
    by (simp add: truthy_def demoEnv_strings asciiToLowerCase_def lowerChar_def
        lowerCaseTable_def keywordResponder_def keywordCategories_def)
  have f1: "config failoverService = Some failoverConfig"
    by (simp add: failoverService_def)
  have f2: "currentProvider failoverService = Local" by (simp add: failoverService_def)
  have f2': "currentProvider failoverService \<noteq> Fallback" by (simp add: failoverService_def)
  have f3: "providerDown downEnv (currentProvider failoverService) ''Network error''"
    by (rule down_providerDown)
  have f3': "providerDown downEnv Local ''Network error''" by (rule down_providerDown)
  have f4: "enableFallback failoverConfig" by (simp add: failoverConfig_def)
  have f5: "fallbackProvider failoverConfig = Some Fallback" by (simp add: failoverConfig_def)
  have f6: "\<not> isWaitingForTermsAcceptance (resolveSessionId downEnv None) failoverService"
    by (simp add: isWaitingForTermsAcceptance_def failoverService_def demoService_def)
  note F = fallback_always_answers [of downEnv "''hello''" None None failoverService]
  have f7: "getFallbackResponse downEnv ''hello'' None = greeting"
    using F h1 h1'' by blast
  have f8: "\<exists>st' evs. generateResponseWithSession downEnv ''hello'' None failoverService =
         (Returned (getFallbackResponse downEnv ''hello'' None) (resolveSessionId downEnv None),
          st', evs)"
    using F f1 f2' f3 f4 f5 f6 by blast
  have s1: "config secondService = Some secondConfig" by (simp add: secondService_def)
  have s2: "currentProvider secondService = Local" by (simp add: secondService_def)
  have s2': "currentProvider secondService \<noteq> Fallback" by (simp add: secondService_def)
  have s3: "providerDown downEnv (currentProvider secondService) ''Network error''"
    by (rule down_providerDown)
  have s4: "enableFallback secondConfig" by (simp add: secondConfig_def)
  have s5: "fallbackProvider secondConfig = Some OpenAI" by (simp add: secondConfig_def)
  have s6: "OpenAI \<noteq> currentProvider secondService" by (simp add: secondService_def)
  have s7: "providerDown downEnv OpenAI ''Network error''" by (rule down_providerDown)
  have s8: "\<not> isWaitingForTermsAcceptance (resolveSessionId downEnv None) secondService"
    by (simp add: isWaitingForTermsAcceptance_def secondService_def demoService_def)
  note S = fallback_always_answers [of downEnv "''hello''" None None secondService]
  have s9: "\<exists>st' evs. generateResponseWithSession downEnv ''hello'' None secondService =
         (Returned (getFallbackResponse downEnv ''hello'' None) (resolveSessionId downEnv None),
          st', evs)"
    using S s1 s2' s3 s4 s5 s6 s7 s8 by blast
  have d1: "config demoService = Some demoConfig" by (simp add: demoService_def)
  have d2: "currentProvider demoService = OpenAI" by (simp add: demoService_def)
  have d2': "currentProvider demoService \<noteq> Fallback" by (simp add: demoService_def)
  have d3: "providerDown downEnv (currentProvider demoService) ''Network error''"
    by (rule down_providerDown)
  have d4: "noFailover demoConfig (currentProvider demoService)"
    by (simp add: noFailover_def demoConfig_def)
  have d4': "noFailover demoConfig OpenAI" by (simp add: noFailover_def demoConfig_def)
  have d5: "\<not> isWaitingForTermsAcceptance (resolveSessionId downEnv None) demoService"
    by (simp add: isWaitingForTermsAcceptance_def demoService_def)
  note D = fallback_always_answers [of downEnv "''xyz''" "Some ''Network error''" None demoService]
  have d6: "getFallbackResponse downEnv ''xyz'' (Some ''Network error'') = apologyText ''xyz''"
    using D by (simp add: truthy_def)
  have d7: "\<exists>st' evs. generateResponseWithSession downEnv ''xyz'' None demoService =
         (Returned (getFallbackResponse downEnv ''xyz'' (Some ''Network error''))
            (resolveSessionId downEnv None), st', evs)"
    using D d1 d2' d3 d4 d5 by blast
  show ?thesis
    using h1 h1' h2 h3 c1 c2 c3 c4 f1 f2 f3' f4 f5 f6 f7 f8 s1 s2 s4 s5 s7 s8 s9
      d1 d2 d4' d5 d6 d7 demo_sid down_sid
    by simp
qed

lemma down_turn_request:
  "respond downEnv OpenAI
     (requestMessages downEnv ''hello'' [message downEnv User ''hello''])
     (Some (getToolsForLLM downEnv)) = Inl ''Network error''"
  by (simp add: downEnv_fields)

text \<open>
  The provider of the demonstration service is down and failover is off: the turn on
  "hello" ends in the apology, which is not the greeting the keywords give and contains
  no "Hello".
\<close>

theorem fallback_apology_counterexample:
  "config demoService = Some demoConfig
   \<and> currentProvider demoService = OpenAI
   \<and> \<not> enableFallback demoConfig
   \<and> \<not> isWaitingForTermsAcceptance ''s1'' demoService
   \<and> respond downEnv OpenAI
        (requestMessages downEnv ''hello'' [message downEnv User ''hello''])
        (Some (getToolsForLLM downEnv)) = Inl ''Network error''
   \<and> str_includes ''hello'' ''hello''
   \<and> fst (generateResponseWithSession downEnv ''hello'' (Some ''s1'') demoService) =
       Returned (apologyText ''hello'') ''s1''
   \<and> keywordResponder (toLowerCase downEnv ''hello'') = greeting
   \<and> apologyText ''hello'' \<noteq> greeting
   \<and> \<not> str_includes (apologyText ''hello'') ''Hello''"
proof -
  have d1: "config demoService = Some demoConfig" by (simp add: demoService_def)
  have d2: "currentProvider demoService = OpenAI" by (simp add: demoService_def)
  have d3: "\<not> enableFallback demoConfig" by (simp add: demoConfig_def)
  have sid: "resolveSessionId downEnv (Some ''s1'') = ''s1''"
    by (simp add: resolveSessionId_def truthy_def)
  have d4: "\<not> isWaitingForTermsAcceptance ''s1'' demoService"
    by (simp add: isWaitingForTermsAcceptance_def demoService_def)
  have "\<exists>st' evs. generateResponseWithSession downEnv ''hello'' (Some ''s1'') demoService =
         (Returned (getFallbackResponse downEnv ''hello'' (Some ''Network error''))
            (resolveSessionId downEnv (Some ''s1'')), st', evs)"
    using turn_down_alone [of downEnv "Some ''s1''" demoService demoConfig "''Network error''"
        "''hello''"] d1 d2 d3 d4 sid down_providerDown [of OpenAI]
    by (simp add: noFailover_def)
  then have t: "fst (generateResponseWithSession downEnv ''hello'' (Some ''s1'') demoService) =
       Returned (apologyText ''hello'') ''s1''"
    using sid by (auto simp: fallback_eq truthy_def)
  have k: "keywordResponder (toLowerCase downEnv ''hello'') = greeting"
    by (simp add: downEnv_fields lower_hello keywordResponder_def keywordCategories_def)
  have n1: "apologyText ''hello'' \<noteq> greeting" by (simp add: apologyText_def greeting_def)
  have n2: "\<not> str_includes (apologyText ''hello'') ''Hello''" by (simp add: apologyText_def)
  show ?thesis using d1 d2 d3 d4 down_turn_request t k n1 n2 by simp
qed


section \<open>Events of a tool execution\<close>

lemma serverCallNames_simps [simp]:
  "serverCallNames [] = []"
  "serverCallNames (a @ b) = serverCallNames a @ serverCallNames b"
  "serverCallNames (ToolDispatch c # b) = serverCallNames b"
  "serverCallNames (ServerCall n args # b) = n # serverCallNames b"
  "serverCallNames (TermsErrorDetected n # b) = serverCallNames b"
  "serverCallNames (ProviderCall p ms ts # b) = serverCallNames b"
  "serverCallNames (Concurrently traces # b) =
     concat (map serverCallNames traces) @ serverCallNames b"
  by (simp_all add: serverCallNames_def [abs_def])

lemma dispatchedCalls_simps [simp]:
  "dispatchedCalls [] = []"
  "dispatchedCalls (a @ b) = dispatchedCalls a @ dispatchedCalls b"
  "dispatchedCalls (ToolDispatch c # b) = c # dispatchedCalls b"
  "dispatchedCalls (ServerCall n args # b) = dispatchedCalls b"
  "dispatchedCalls (TermsErrorDetected n # b) = dispatchedCalls b"
  "dispatchedCalls (ProviderCall p ms ts # b) = dispatchedCalls b"
  "dispatchedCalls (Concurrently traces # b) =
     concat (map dispatchedCalls traces) @ dispatchedCalls b"
  by (simp_all add: dispatchedCalls_def [abs_def])

lemma providerCalls_simps [simp]:
  "providerCalls [] = []"
  "providerCalls (a @ b) = providerCalls a @ providerCalls b"
  "providerCalls (ToolDispatch c # b) = providerCalls b"
  "providerCalls (ServerCall n args # b) = providerCalls b"
  "providerCalls (TermsErrorDetected n # b) = providerCalls b"
  "providerCalls (Concurrently traces # b) = providerCalls b"
  "providerCalls (ProviderCall p ms ts # b) = ProviderCall p ms ts # providerCalls b"
  by (simp_all add: providerCalls_def isProviderCall_def)

lemma callTool_eq:
  "callTool w c =
     (if \<not> clientInitialized w then (Inl ''MCP client not initialized'', [])
      else (Inr (serverResult w c), [ServerCall (mcp_name c) (enhancedArguments w c)]))"
  by (simp add: callTool_def serverResult_def split: sum.split)

lemma executeMCPTool_eq:
  "executeMCPTool w tc =
     (if \<not> startsWith (function_name tc) mcpPrefix then
        (Inl (''Invalid MCP function name: '' @ function_name tc), [])
      else if assignmentFails w tc then
        (Inl (typeErrorMessage w (argumentsValue w tc)), [])
      else if \<not> mcpConnectionHealthy w then
        (Inl ''MCP connection could not be established'', [])
      else if \<not> clientInitialized w then
        (Inl ''MCP client not initialized'', [ToolDispatch (mcpToolCallOf w tc)])
      else
        (Inr (serverResult w (mcpToolCallOf w tc)),
         [ToolDispatch (mcpToolCallOf w tc),
          ServerCall (drop (length mcpPrefix) (function_name tc))
            (enhancedArguments w (mcpToolCallOf w tc))] @
         (if isTermsError w (drop (length mcpPrefix) (function_name tc))
               (serverResult w (mcpToolCallOf w tc))
          then [TermsErrorDetected (drop (length mcpPrefix) (function_name tc))] else [])))"
  by (simp add: executeMCPTool_def Let_def callTool_eq mcpToolCallOf_def)

lemma callTool_events:
  assumes "callTool w c = (r, evs)"
  shows "serverCallNames evs = (if clientInitialized w then [mcp_name c] else [])"
    and "dispatchedCalls evs = []"
    and "providerCalls evs = []"
  using assms by (auto simp: callTool_eq split: if_splits)



lemma executeMCPTool_provider [simp]: "providerCalls (snd (executeMCPTool w tc)) = []"
  by (simp add: executeMCPTool_eq)



lemma demoEnv_fields:
  "JSON_parse demoEnv = demoParse" "JSON_stringify demoEnv = demoStringify"
  "baseSite demoEnv = Some ''powertools-spa''" "mcpConnectionHealthy demoEnv"
  "clientInitialized demoEnv" "windowOrigin demoEnv = Some ''https://localhost:4200''"
  "accessToken demoEnv = None" "activeCartCode demoEnv = Some ''00001000''"
  "sdkCallTool demoEnv = demoServer" "now demoEnv = 1000"
  "typeErrorMessage demoEnv = demoTypeError" "availableTools demoEnv = [demoTool]"
  "respond demoEnv = demoBackend"
  "contextualizedPrompt demoEnv = ''You are a helpful AI assistant for Gallo Connect''"
  by (simp_all add: demoEnv_def)




section \<open>The tool-call round\<close>

lemma toolExecution_fst:
  "fst (toolExecution w tc) = toolMessage w tc (toolResultContent w tc)"
  by (simp add: toolExecution_def toolResultContent_def split: prod.split sum.split)

lemma toolExecution_snd: "snd (toolExecution w tc) = snd (executeMCPTool w tc)"
  by (simp add: toolExecution_def split: prod.split sum.split)

lemma executeToolCalls_eq:
  assumes "currentProvider st \<noteq> Fallback"
  shows "executeToolCalls w st tcs msgs r =
     (let results = map (\<lambda>tc. toolMessage w tc (toolResultContent w tc)) tcs;
          followup = msgs @ [assistantToolCallMessage w r tcs] @ results
      in ((case respond w (currentProvider st) followup None of
             Inr f \<Rightarrow> response_content f
           | Inl err \<Rightarrow> ''Tools executed successfully, but follow-up response failed: '' @ err),
          [Concurrently (map (\<lambda>tc. snd (executeMCPTool w tc)) tcs),
           ProviderCall (currentProvider st) followup None]))"
  using assms
  by (simp add: executeToolCalls_def Let_def assistantToolCallMessage_def comp_def
      toolExecution_fst toolExecution_snd split: sum.split)

lemma generateResponse_round:
  assumes "config st = Some cfg"
      and "currentProvider st \<noteq> Fallback"
      and "respond w (currentProvider st) (requestMessages w u h) (Some (getToolsForLLM w)) = Inr r"
      and "response_tool_calls r = Some tcs"
      and "tcs \<noteq> []"
  shows "generateResponse w st u h =
     (let results = map (\<lambda>tc. toolMessage w tc (toolResultContent w tc)) tcs;
          followup = requestMessages w u h @ [assistantToolCallMessage w r tcs] @ results
      in ((case respond w (currentProvider st) followup None of
             Inr f \<Rightarrow> response_content f
           | Inl err \<Rightarrow> ''Tools executed successfully, but follow-up response failed: '' @ err),
          [ProviderCall (currentProvider st) (requestMessages w u h) (Some (getToolsForLLM w)),
           Concurrently (map (\<lambda>tc. snd (executeMCPTool w tc)) tcs),
           ProviderCall (currentProvider st) followup None]))"
proof -
  have gr: "generateResponse w st u h =
      (let (answer, evs) = executeToolCalls w st tcs (requestMessages w u h) r
       in (answer, ProviderCall (currentProvider st) (requestMessages w u h)
                     (Some (getToolsForLLM w)) # evs))"
    using assms by (simp add: generateResponse_def Let_def handleLLMResponse_def)
  show ?thesis
    unfolding gr executeToolCalls_eq [OF assms(2)] by (simp add: Let_def)
qed

text \<open>
  Claim C6.  When the response of the active provider to a request carries N tool calls
  (N > 0), the orchestrator executes each of them, side by side.  An execution raises when
  the function name lacks the prefix, when the arguments cannot take the site, when the
  connection cannot be established and when the tool client is not initialised; otherwise
  the call is dispatched to the tool client and from there to the tool server, and the
  execution ends in the server's result, or in an error result that describes the failure
  of the transport.  The formatted result of each call, or the description of the error
  its execution raised, is the content of a tool-result message carrying the id of its
  call; the assistant's tool-call message and the N tool-result messages are appended, in
  order, to the message list of the request; and the provider is invoked exactly once
  more, on that list and without tool definitions, after all the executions.  The answer
  is the content of that follow-up response (or an explanation when the follow-up fails):
  tool calls the follow-up response may carry are not read, and nothing happens after the
  follow-up.
\<close>

theorem tool_calls_single_follow_up:
  assumes "config st = Some cfg"
      and "currentProvider st \<noteq> Fallback"
      and "respond w (currentProvider st) (requestMessages w u h) (Some (getToolsForLLM w)) = Inr r"
      and "response_tool_calls r = Some tcs"
      and "tcs \<noteq> []"
  shows "(let assistant =
                \<lparr>role = Assistant, content = response_content r, timestamp = Some (now w),
                 tool_calls = Some tcs, tool_call_id = None\<rparr>;
              results =
                map (\<lambda>tc. \<lparr>role = Tool, content = toolResultContent w tc,
                           timestamp = Some (now w), tool_calls = None,
                           tool_call_id = Some (call_id tc)\<rparr>) tcs;
              followup = requestMessages w u h @ [assistant] @ results;
              first = ProviderCall (currentProvider st) (requestMessages w u h)
                        (Some (getToolsForLLM w));
              second = ProviderCall (currentProvider st) followup None
          in generateResponse w st u h =
               ((case respond w (currentProvider st) followup None of
                   Inr f \<Rightarrow> response_content f
                 | Inl err \<Rightarrow>
                     ''Tools executed successfully, but follow-up response failed: '' @ err),
                [first, Concurrently (map (\<lambda>tc. snd (executeMCPTool w tc)) tcs), second])
             \<and> length results = length tcs
             \<and> map tool_call_id results = map (\<lambda>tc. Some (call_id tc)) tcs
             \<and> list_all (\<lambda>m. role m = Tool) results
             \<and> providerCalls (snd (generateResponse w st u h)) = [first, second])
         \<and> toolResultContent w tc =
             (case fst (executeMCPTool w tc) of
                Inr result \<Rightarrow> formatToolResult w result
              | Inl err \<Rightarrow> ''Error executing tool '' @ function_name tc @ '': '' @ err)
         \<and> executeMCPTool w tc =
             (if \<not> startsWith (function_name tc) mcpPrefix then
                (Inl (''Invalid MCP function name: '' @ function_name tc), [])
              else if assignmentFails w tc then
                (Inl (typeErrorMessage w (argumentsValue w tc)), [])
              else if \<not> mcpConnectionHealthy w then
                (Inl ''MCP connection could not be established'', [])
              else if \<not> clientInitialized w then
                (Inl ''MCP client not initialized'', [ToolDispatch (mcpToolCallOf w tc)])
              else
                (Inr (serverResult w (mcpToolCallOf w tc)),
                 [ToolDispatch (mcpToolCallOf w tc),
                  ServerCall (drop (length mcpPrefix) (function_name tc))
                    (enhancedArguments w (mcpToolCallOf w tc))] @
                 (if isTermsError w (drop (length mcpPrefix) (function_name tc))
                       (serverResult w (mcpToolCallOf w tc))
                  then [TermsErrorDetected (drop (length mcpPrefix) (function_name tc))]
                  else [])))
         \<and> (isError result \<longrightarrow>
               formatToolResult w result =
                 cross_mark @ '' Tool Error: '' @ join ''\<newline>'' (partTexts result))
         \<and> (\<not> isError result \<and> result_content result \<noteq> [] \<longrightarrow>
               formatToolResult w result =
                 check_mark @ '' Tool Result:\<newline>'' @
                   join ''\<newline>\<newline>'' (map (formatPart w) (result_content result)))"
proof -
  have a: "toolResultContent w tc =
             (case fst (executeMCPTool w tc) of
                Inr result \<Rightarrow> formatToolResult w result
              | Inl err \<Rightarrow> ''Error executing tool '' @ function_name tc @ '': '' @ err)"
    by (simp add: toolResultContent_def)
  have b: "(isError result \<longrightarrow>
               formatToolResult w result =
                 cross_mark @ '' Tool Error: '' @ join ''\<newline>'' (partTexts result))
         \<and> (\<not> isError result \<and> result_content result \<noteq> [] \<longrightarrow>
               formatToolResult w result =
                 check_mark @ '' Tool Result:\<newline>'' @
                   join ''\<newline>\<newline>'' (map (formatPart w) (result_content result)))"
    by (simp add: formatToolResult_def)
  have c: "providerCalls (snd (generateResponse w st u h)) =
     [ProviderCall (currentProvider st) (requestMessages w u h) (Some (getToolsForLLM w)),
      ProviderCall (currentProvider st)
        (requestMessages w u h @ [assistantToolCallMessage w r tcs] @
         map (\<lambda>tc. toolMessage w tc (toolResultContent w tc)) tcs) None]"
    unfolding generateResponse_round [OF assms] by (simp add: Let_def)
  have d: "(let assistant =
                \<lparr>role = Assistant, content = response_content r, timestamp = Some (now w),
                 tool_calls = Some tcs, tool_call_id = None\<rparr>;
              results =
                map (\<lambda>tc. \<lparr>role = Tool, content = toolResultContent w tc,
                           timestamp = Some (now w), tool_calls = None,
                           tool_call_id = Some (call_id tc)\<rparr>) tcs;
              followup = requestMessages w u h @ [assistant] @ results;
              first = ProviderCall (currentProvider st) (requestMessages w u h)
                        (Some (getToolsForLLM w));
              second = ProviderCall (currentProvider st) followup None
          in generateResponse w st u h =
               ((case respond w (currentProvider st) followup None of
                   Inr f \<Rightarrow> response_content f
                 | Inl err \<Rightarrow>
                     ''Tools executed successfully, but follow-up response failed: '' @ err),
                [first, Concurrently (map (\<lambda>tc. snd (executeMCPTool w tc)) tcs), second])
             \<and> length results = length tcs
             \<and> map tool_call_id results = map (\<lambda>tc. Some (call_id tc)) tcs
             \<and> list_all (\<lambda>m. role m = Tool) results
             \<and> providerCalls (snd (generateResponse w st u h)) = [first, second])"
    unfolding c unfolding generateResponse_round [OF assms]
    by (simp add: Let_def toolMessage_def assistantToolCallMessage_def comp_def list_all_iff)
  show ?thesis using a b d executeMCPTool_eq [of w tc] by blast
qed


lemma offlineEnv_fields:
  "JSON_parse offlineEnv = demoParse" "baseSite offlineEnv = Some ''powertools-spa''"
  "mcpConnectionHealthy offlineEnv" "clientInitialized offlineEnv"
  "windowOrigin offlineEnv = Some ''https://localhost:4200''"
  "accessToken offlineEnv = None" "activeCartCode offlineEnv = Some ''00001000''"
  "sdkCallTool offlineEnv = (\<lambda>name args. Inl (Some ''Network error''))"
  "now offlineEnv = 1000" "respond offlineEnv = eagerBackend"
  "toLowerCase offlineEnv = asciiToLowerCase"
  by (simp_all add: offlineEnv_def demoEnv_def)

lemma offline_calls:
  "mcpToolCallOf offlineEnv demoOrderCall = demoMcpCall"
  "mcpToolCallOf offlineEnv searchCall = searchMcpCall"
  "enhancedArguments offlineEnv demoMcpCall = demoServerArguments"
  "enhancedArguments offlineEnv searchMcpCall = searchServerArguments"
  "serverResult offlineEnv c = networkErrorResult"
  by (simp_all add: mcpToolCallOf_def argumentsValue_def ownProperties_def offlineEnv_fields
      demoParse_def demoOrderCall_def searchCall_def demoMcpCall_def searchMcpCall_def
      inject_def truthy_def mcpPrefix_def enhancedArguments_def isCartOperation_def
      demoServerArguments_def searchServerArguments_def serverResult_def
      networkErrorResult_def)

lemma offline_checks:
  "startsWith (function_name demoOrderCall) mcpPrefix"
  "startsWith (function_name searchCall) mcpPrefix"
  "\<not> startsWith (function_name lookupCall) mcpPrefix"
  "\<not> assignmentFails offlineEnv demoOrderCall"
  "\<not> assignmentFails offlineEnv searchCall"
  "drop (length mcpPrefix) (function_name demoOrderCall) = ''place-order''"
  "drop (length mcpPrefix) (function_name searchCall) = ''search-products''"
  "\<not> isTermsError offlineEnv n networkErrorResult"
  by (simp_all add: demoOrderCall_def searchCall_def lookupCall_def mcpPrefix_def
      assignmentFails_def argumentsValue_def acceptsProperty_def offlineEnv_fields
      demoParse_def isTermsError_def networkErrorResult_def partTexts_def textPart_def
      asciiToLowerCase_def lowerChar_def lowerCaseTable_def Let_def)

lemma network_format: "formatToolResult offlineEnv networkErrorResult = networkErrorText"
  by (simp add: formatToolResult_def networkErrorResult_def partTexts_def textPart_def
      networkErrorText_def)

theorem tool_calls_single_follow_up_witness:
  "config demoService = Some demoConfig
   \<and> currentProvider demoService \<noteq> Fallback
   \<and> respond offlineEnv (currentProvider demoService)
        (requestMessages offlineEnv ''place my order'' []) (Some (getToolsForLLM offlineEnv)) =
        Inr batchResponse
   \<and> response_tool_calls batchResponse = Some batchCalls
   \<and> batchCalls \<noteq> []
   \<and> response_tool_calls batchResponse \<noteq> None
   \<and> respond offlineEnv OpenAI batchFollowUp None = Inr batchResponse
   \<and> executeMCPTool offlineEnv demoOrderCall =
        (Inr networkErrorResult,
         [ToolDispatch demoMcpCall, ServerCall ''place-order'' demoServerArguments])
   \<and> executeMCPTool offlineEnv searchCall =
        (Inr networkErrorResult,
         [ToolDispatch searchMcpCall, ServerCall ''search-products'' searchServerArguments])
   \<and> executeMCPTool offlineEnv lookupCall = (Inl ''Invalid MCP function name: lookup'', [])
   \<and> isError networkErrorResult
   \<and> formatToolResult offlineEnv networkErrorResult =
        cross_mark @ '' Tool Error: Error executing tool: Network error''
   \<and> \<not> isError placedResult \<and> result_content placedResult \<noteq> []
   \<and> formatToolResult offlineEnv placedResult =
        check_mark @ '' Tool Result:\<newline>Order 00012345 placed''
   \<and> generateResponse offlineEnv demoService ''place my order'' [] =
        (''Let me look that up.'',
         [ProviderCall OpenAI batchRequest (Some (getToolsForLLM offlineEnv)),
          Concurrently
            [[ToolDispatch demoMcpCall, ServerCall ''place-order'' demoServerArguments],
             [ToolDispatch searchMcpCall, ServerCall ''search-products'' searchServerArguments],
             []],
          ProviderCall OpenAI batchFollowUp None])
   \<and> length (providerCalls (snd (generateResponse offlineEnv demoService ''place my order'' []))) = 2"
proof -
  have h1: "config demoService = Some demoConfig" by (simp add: demoService_def)
  have h2: "currentProvider demoService \<noteq> Fallback" by (simp add: demoService_def)
  have h3: "respond offlineEnv (currentProvider demoService)
              (requestMessages offlineEnv ''place my order'' [])
              (Some (getToolsForLLM offlineEnv)) = Inr batchResponse"
    by (simp add: offlineEnv_fields eagerBackend_def)
  have h4: "response_tool_calls batchResponse = Some batchCalls"
    by (simp add: batchResponse_def)
  have h5: "batchCalls \<noteq> []" by (simp add: batchCalls_def)
  have h6: "response_tool_calls batchResponse \<noteq> None" by (simp add: batchResponse_def)
  have h7: "respond offlineEnv OpenAI batchFollowUp None = Inr batchResponse"
    by (simp add: offlineEnv_fields eagerBackend_def)
  have p: "currentProvider demoService = OpenAI" by (simp add: demoService_def)
  note T1 = tool_calls_single_follow_up [OF h1 h2 h3 h4 h5, where tc = demoOrderCall
      and result = networkErrorResult]
  note T2 = tool_calls_single_follow_up [OF h1 h2 h3 h4 h5, where tc = searchCall
      and result = networkErrorResult]
  note T3 = tool_calls_single_follow_up [OF h1 h2 h3 h4 h5, where tc = lookupCall
      and result = networkErrorResult]
  have e1: "executeMCPTool offlineEnv demoOrderCall =
        (Inr networkErrorResult,
         [ToolDispatch demoMcpCall, ServerCall ''place-order'' demoServerArguments])"
    using T1 by (simp add: offline_checks offline_calls offlineEnv_fields)
  have e2: "executeMCPTool offlineEnv searchCall =
        (Inr networkErrorResult,
         [ToolDispatch searchMcpCall, ServerCall ''search-products'' searchServerArguments])"
    using T2 by (simp add: offline_checks offline_calls offlineEnv_fields)
  have e3: "executeMCPTool offlineEnv lookupCall = (Inl ''Invalid MCP function name: lookup'', [])"
  proof -
    have "executeMCPTool offlineEnv lookupCall =
            (Inl (''Invalid MCP function name: '' @ function_name lookupCall), [])"
      using T3 offline_checks(3) by simp
    then show ?thesis by (simp add: lookupCall_def)
  qed
  have r1: "toolResultContent offlineEnv demoOrderCall = networkErrorText"
    using T1 by (simp add: e1 network_format)
  have r2: "toolResultContent offlineEnv searchCall = networkErrorText"
    using T2 by (simp add: e2 network_format)
  have r3: "toolResultContent offlineEnv lookupCall =
              ''Error executing tool lookup: Invalid MCP function name: lookup''"
  proof -
    have "toolResultContent offlineEnv lookupCall =
            (case fst (executeMCPTool offlineEnv lookupCall) of
               Inr result \<Rightarrow> formatToolResult offlineEnv result
             | Inl err \<Rightarrow> ''Error executing tool '' @ function_name lookupCall @ '': '' @ err)"
      using T3 by blast
    then show ?thesis unfolding e3 by (simp add: lookupCall_def)
  qed
  have n1: "isError networkErrorResult" by (simp add: networkErrorResult_def)
  have n2: "formatToolResult offlineEnv networkErrorResult =
        cross_mark @ '' Tool Error: '' @ join ''\<newline>'' (partTexts networkErrorResult)"
    using T1 n1 by blast
  have n3: "formatToolResult offlineEnv networkErrorResult =
        cross_mark @ '' Tool Error: Error executing tool: Network error''"
    using n2 by (simp add: networkErrorResult_def partTexts_def textPart_def)
  have n4: "\<not> isError placedResult \<and> result_content placedResult \<noteq> []"
    by (simp add: placedResult_def)
  have n5: "formatToolResult offlineEnv placedResult =
        check_mark @ '' Tool Result:\<newline>'' @
          join ''\<newline>\<newline>'' (map (formatPart offlineEnv) (result_content placedResult))"
    using tool_calls_single_follow_up [OF h1 h2 h3 h4 h5, where tc = demoOrderCall
      and result = placedResult] n4 by blast
  have n6: "formatToolResult offlineEnv placedResult =
        check_mark @ '' Tool Result:\<newline>Order 00012345 placed''"
    using n5 by (simp add: placedResult_def textPart_def formatPart_def orElse_def truthy_def)
  have ids: "call_id demoOrderCall = ''call_1''" "call_id searchCall = ''call_2''"
    "call_id lookupCall = ''call_3''"
    by (simp_all add: demoOrderCall_def searchCall_def lookupCall_def)
  have g: "generateResponse offlineEnv demoService ''place my order'' [] =
        (''Let me look that up.'',
         [ProviderCall OpenAI batchRequest (Some (getToolsForLLM offlineEnv)),
          Concurrently
            [[ToolDispatch demoMcpCall, ServerCall ''place-order'' demoServerArguments],
             [ToolDispatch searchMcpCall, ServerCall ''search-products'' searchServerArguments],
             []],
          ProviderCall OpenAI batchFollowUp None])"
    using T1
    by (simp add: Let_def batchCalls_def r1 r2 r3 e1 e2 e3 ids p batchFollowUp_def
        batchRequest_def offlineEnv_fields eagerBackend_def batchResponse_def)
  have c: "length (providerCalls (snd (generateResponse offlineEnv demoService
             ''place my order'' []))) = 2"
    using T1 by (simp add: Let_def)
  show ?thesis using h1 h2 h3 h4 h5 h6 h7 e1 e2 e3 n1 n3 n4 n6 g c by blast
qed


section \<open>The terms interrupt\<close>

lemma pending_of_add [simp]: "pending_of (addToConversationHistory sid m st) = pending_of st"
  by (rule ext) (simp add: pending_of_def)

lemma pending_of_get [simp]: "pending_of (snd (getConversationHistory sid st)) = pending_of st"
  by (rule ext) (simp add: pending_of_def)

lemma pending_of_init [simp]: "pending_of (initializeOrderFlow sid st) = pending_of st"
  by (rule ext)
    (simp add: pending_of_def initializeOrderFlow_def Let_def contextOrNew_def emptyContext_def
      split: option.split)


lemma waiting_pending:
  "isWaitingForTermsAcceptance sid st =
     (case pending_of st sid of None \<Rightarrow> False | Some p \<Rightarrow> waitingForTermsAcceptance p)"
  by (simp add: isWaitingForTermsAcceptance_def pending_of_def split: option.split)

lemma pending_clear:
  "pending_of (clearPendingOrderContext sid st) = (pending_of st)(sid := None)"
  by (rule ext) (auto simp: pending_of_def clearPendingOrderContext_def split: option.split)

lemma pending_set:
  "pending_of (setPendingOrderContext sid tc tm st) sid =
     Some \<lparr>originalToolCall = tc, waitingForTermsAcceptance = True, termsMessage = tm\<rparr>"
  by (simp add: pending_of_def setPendingOrderContext_def Let_def)

lemma pending_handle:
  "pending_of st sid = Some p \<Longrightarrow>
   pending_of (fst (snd (handleTermsAcceptanceResponse w u sid st))) = (pending_of st)(sid := None)"
  by (simp add: handleTermsAcceptanceResponse_def Let_def pending_clear
      split: option.split sum.split prod.split)


lemma turn_waiting:
  assumes "isWaitingForTermsAcceptance (resolveSessionId w sessionId) st"
  shows "generateResponseWithSession w u sessionId st =
           handleTermsAcceptanceResponse w u (resolveSessionId w sessionId) st"
  using assms by (simp add: generateResponseWithSession_def resolveSessionId_def Let_def)


lemma handle_declined:
  assumes "pending_of st sid = Some p" and "\<not> isAccepted w u"
  shows "\<exists>st'. handleTermsAcceptanceResponse w u sid st = (Returned refusal sid, st', [])"
  using assms by (simp add: handleTermsAcceptanceResponse_def Let_def)

lemma handle_accepted:
  assumes "pending_of st sid = Some p" and "isAccepted w u"
      and "JSON_parse w (function_arguments (originalToolCall p)) = Some parsed"
  shows "\<exists>st'. handleTermsAcceptanceResponse w u sid st =
           ((case fst (executeMCPTool w (modifiedToolCall w (originalToolCall p) parsed)) of
               Inr result \<Rightarrow> Returned (thanksPrefix @ formatToolResult w result) sid
             | Inl err \<Rightarrow> Returned (retryErrorPrefix @ err) sid),
            st',
            snd (executeMCPTool w (modifiedToolCall w (originalToolCall p) parsed)))"
  using assms
  by (simp add: handleTermsAcceptanceResponse_def Let_def split: prod.split sum.split)

lemma map_of_termsChecked:
  "map_of (termsCheckedArguments w parsed) =
     (map_of (ownProperties w parsed))(''termsChecked'' \<mapsto> JBool True)"
  by (simp add: termsCheckedArguments_def update_conv')

lemma map_of_inject:
  "key \<noteq> k \<Longrightarrow> map_of (inject key v args) k = map_of args k"
  by (simp add: inject_def update_conv')

lemma retry_dispatch:
  assumes "startsWith (function_name original) mcpPrefix"
      and "mcpConnectionHealthy w"
      and "JSON_parse w (JSON_stringify w (JObj (termsCheckedArguments w parsed)))
             = Some (JObj (termsCheckedArguments w parsed))"
  shows "dispatchedCalls (snd (executeMCPTool w (modifiedToolCall w original parsed))) =
           [\<lparr>mcp_name = drop (length mcpPrefix) (function_name original),
             mcp_arguments = inject ''baseSiteId'' (baseSite w)
                               (termsCheckedArguments w parsed),
             mcp_serverId = ''default''\<rparr>]"
  using assms
  by (simp add: executeMCPTool_eq modifiedToolCall_def assignmentFails_def argumentsValue_def
      acceptsProperty_def mcpToolCallOf_def ownProperties_def)


section \<open>The demonstration turn\<close>












section \<open>The accept/decline turn\<close>

lemma demo_pending:
  "pending_of pendingService ''s1'' =
     Some \<lparr>originalToolCall = demoOrderCall, waitingForTermsAcceptance = True,
           termsMessage = Some termsText\<rparr>"
  by (simp add: pendingService_def pending_set)

lemma demo_retry_call:
  "modifiedToolCall demoEnv demoOrderCall (JObj []) =
     demoOrderCall\<lparr>function_arguments := ''{\"termsChecked\":true}''\<rparr>"
  by (simp add: modifiedToolCall_def termsCheckedArguments_def ownProperties_def
      demoEnv_fields demoStringify_def)

lemma demo_retry:
  "executeMCPTool demoEnv (modifiedToolCall demoEnv demoOrderCall (JObj [])) =
     (Inr placedResult,
      [ToolDispatch
         \<lparr>mcp_name = ''place-order'',
          mcp_arguments = [(''termsChecked'', JBool True), (''baseSiteId'', JStr ''powertools-spa'')],
          mcp_serverId = ''default''\<rparr>,
       ServerCall ''place-order''
         [(''termsChecked'', JBool True), (''baseSiteId'', JStr ''powertools-spa''),
          (''baseSiteUrl'', JStr ''https://localhost:4200''), (''cartId'', JStr ''00001000'')]])"
  unfolding demo_retry_call
  by (simp add: executeMCPTool_eq assignmentFails_def argumentsValue_def acceptsProperty_def
      mcpToolCallOf_def ownProperties_def serverResult_def enhancedArguments_def
      demoOrderCall_def mcpPrefix_def Let_def demoEnv_fields demoParse_def inject_def
      truthy_def isCartOperation_def demoServer_def sdk_formatToolResult_def placedResult_def
      isTermsError_def)

lemma unreachable_retry:
  "executeMCPTool unreachableEnv tc =
     (if \<not> startsWith (function_name tc) mcpPrefix
      then (Inl (''Invalid MCP function name: '' @ function_name tc), [])
      else if assignmentFails unreachableEnv tc
      then (Inl (typeErrorMessage unreachableEnv (argumentsValue unreachableEnv tc)), [])
      else (Inl ''MCP connection could not be established'', []))"
  by (simp add: executeMCPTool_eq unreachableEnv_def)

lemma accept_examples:
  "isAccepted demoEnv ''yes''" "isAccepted demoEnv ''yes please''"
  "\<not> isAccepted demoEnv ''why''" "isAccepted demoEnv ''book it''"
  "\<not> isAccepted demoEnv ''no''"
  by (simp_all add: isAccepted_def demoEnv_strings asciiToLowerCase_def asciiTrim_def
      isSpace_def lowerChar_def lowerCaseTable_def)

lemma spec_examples:
  "\<not> spec_accept_exact demoEnv ''yes please''" "spec_accept_anywhere demoEnv ''why''"
  by (simp_all add: spec_accept_exact_def spec_accept_anywhere_def acceptTokens_def
      demoEnv_strings asciiToLowerCase_def asciiTrim_def isSpace_def lowerChar_def
      lowerCaseTable_def)

text \<open>
  Claim C2, as amended.  While a terms decision is pending for a session, its next turn is
  the accept/decline handler.  The utterance is an acceptance exactly when its text,
  lower-cased and trimmed by the runtime, contains "yes", "accept", "agree" or "ok", or is
  "y" (the predicate \<open>isAccepted\<close>); anything else declines.  On acceptance, when the
  stored arguments parse as JSON, the stored call is executed again with
  \<open>termsChecked = true\<close> merged into the parsed arguments and nothing else changed, and
  the turn returns, without any call to a provider, the thanks sentence followed by the
  formatted tool result, or the explanation of the error when the execution raises.  On
  decline the fixed refusal is returned and nothing is called.  In every case the pending
  operation of the session is cleared by the turn.
\<close>

theorem terms_decision_turn:
  assumes "pending_of st sid = Some p"
      and "waitingForTermsAcceptance p"
      and "sid \<noteq> []"
  shows "generateResponseWithSession w u (Some sid) st =
           handleTermsAcceptanceResponse w u sid st
     \<and> pending_of (fst (snd (generateResponseWithSession w u (Some sid) st))) sid = None
     \<and> \<not> isWaitingForTermsAcceptance sid
           (fst (snd (generateResponseWithSession w u (Some sid) st)))
     \<and> isAccepted w u =
         (str_includes (trim w (toLowerCase w u)) ''yes'' \<or>
          str_includes (trim w (toLowerCase w u)) ''accept'' \<or>
          str_includes (trim w (toLowerCase w u)) ''agree'' \<or>
          str_includes (trim w (toLowerCase w u)) ''ok'' \<or>
          trim w (toLowerCase w u) = ''y'')
     \<and> (\<not> isAccepted w u \<longrightarrow>
          fst (generateResponseWithSession w u (Some sid) st) = Returned refusal sid \<and>
          snd (snd (generateResponseWithSession w u (Some sid) st)) = [])
     \<and> (isAccepted w u \<and>
          JSON_parse w (function_arguments (originalToolCall p)) = Some parsed \<longrightarrow>
          fst (generateResponseWithSession w u (Some sid) st) =
            (case fst (executeMCPTool w (modifiedToolCall w (originalToolCall p) parsed)) of
               Inr result \<Rightarrow> Returned (thanksPrefix @ formatToolResult w result) sid
             | Inl err \<Rightarrow> Returned (retryErrorPrefix @ err) sid)
          \<and> snd (snd (generateResponseWithSession w u (Some sid) st)) =
              snd (executeMCPTool w (modifiedToolCall w (originalToolCall p) parsed))
          \<and> providerCalls (snd (snd (generateResponseWithSession w u (Some sid) st))) = []
          \<and> modifiedToolCall w (originalToolCall p) parsed =
              (originalToolCall p)\<lparr>function_arguments :=
                 JSON_stringify w (JObj (termsCheckedArguments w parsed))\<rparr>
          \<and> map_of (termsCheckedArguments w parsed) =
              (map_of (ownProperties w parsed))(''termsChecked'' \<mapsto> JBool True)
          \<and> (startsWith (function_name (originalToolCall p)) mcpPrefix \<and>
              mcpConnectionHealthy w \<and>
              JSON_parse w (JSON_stringify w (JObj (termsCheckedArguments w parsed))) =
                Some (JObj (termsCheckedArguments w parsed)) \<longrightarrow>
              dispatchedCalls (snd (snd (generateResponseWithSession w u (Some sid) st))) =
                [\<lparr>mcp_name = drop (length mcpPrefix) (function_name (originalToolCall p)),
                  mcp_arguments = inject ''baseSiteId'' (baseSite w)
                                    (termsCheckedArguments w parsed),
                  mcp_serverId = ''default''\<rparr>]))
     \<and> ownProperties w (JObj obj) = obj
     \<and> map_of (termsCheckedArguments w (JObj obj)) =
         (map_of obj)(''termsChecked'' \<mapsto> JBool True)"
proof -
  have r: "resolveSessionId w (Some sid) = sid"
    using assms(3) by (simp add: resolveSessionId_def truthy_def)
  have wt: "isWaitingForTermsAcceptance sid st"
    using assms(1,2) by (simp add: waiting_pending)
  have eq: "generateResponseWithSession w u (Some sid) st =
              handleTermsAcceptanceResponse w u sid st"
    using turn_waiting [of w "Some sid" st u] wt r by simp
  have cleared: "pending_of (fst (snd (handleTermsAcceptanceResponse w u sid st))) sid = None"
    using pending_handle [OF assms(1), of w u] by simp
  have declined: "\<not> isAccepted w u \<Longrightarrow>
      fst (handleTermsAcceptanceResponse w u sid st) = Returned refusal sid \<and>
      snd (snd (handleTermsAcceptanceResponse w u sid st)) = []"
    using handle_declined [OF assms(1), of w u] by auto
  have accepted: "isAccepted w u \<Longrightarrow>
      JSON_parse w (function_arguments (originalToolCall p)) = Some parsed \<Longrightarrow>
      fst (handleTermsAcceptanceResponse w u sid st) =
        (case fst (executeMCPTool w (modifiedToolCall w (originalToolCall p) parsed)) of
           Inr result \<Rightarrow> Returned (thanksPrefix @ formatToolResult w result) sid
         | Inl err \<Rightarrow> Returned (retryErrorPrefix @ err) sid) \<and>
      snd (snd (handleTermsAcceptanceResponse w u sid st)) =
        snd (executeMCPTool w (modifiedToolCall w (originalToolCall p) parsed))"
    using handle_accepted [OF assms(1), of w u parsed] by auto
  have acc: "isAccepted w u =
         (str_includes (trim w (toLowerCase w u)) ''yes'' \<or>
          str_includes (trim w (toLowerCase w u)) ''accept'' \<or>
          str_includes (trim w (toLowerCase w u)) ''agree'' \<or>
          str_includes (trim w (toLowerCase w u)) ''ok'' \<or>
          trim w (toLowerCase w u) = ''y'')"
    by (simp add: isAccepted_def Let_def)
  have own: "ownProperties w (JObj obj) = obj" by (simp add: ownProperties_def)
  show ?thesis
    unfolding eq
    using cleared declined accepted acc own
      retry_dispatch [of "originalToolCall p" w parsed]
    by (auto simp: waiting_pending map_of_termsChecked modifiedToolCall_def)
qed

theorem terms_decision_turn_witness:
  "pending_of pendingService ''s1'' =
     Some \<lparr>originalToolCall = demoOrderCall, waitingForTermsAcceptance = True,
           termsMessage = Some termsText\<rparr>
   \<and> ''s1'' \<noteq> []
   \<and> \<not> isAccepted demoEnv ''no''
   \<and> isAccepted demoEnv ''yes''
   \<and> JSON_parse demoEnv (function_arguments demoOrderCall) = Some (JObj [])
   \<and> startsWith (function_name demoOrderCall) mcpPrefix
   \<and> mcpConnectionHealthy demoEnv
   \<and> JSON_parse demoEnv (JSON_stringify demoEnv
         (JObj (termsCheckedArguments demoEnv (JObj [])))) =
       Some (JObj (termsCheckedArguments demoEnv (JObj [])))
   \<and> fst (generateResponseWithSession demoEnv ''no'' (Some ''s1'') pendingService) =
       Returned refusal ''s1''
   \<and> fst (generateResponseWithSession demoEnv ''yes'' (Some ''s1'') pendingService) =
       Returned (thanksPrefix @ formatToolResult demoEnv placedResult) ''s1''
   \<and> dispatchedCalls (snd (snd (generateResponseWithSession demoEnv ''yes'' (Some ''s1'')
         pendingService))) =
       [\<lparr>mcp_name = ''place-order'',
         mcp_arguments = [(''termsChecked'', JBool True), (''baseSiteId'', JStr ''powertools-spa'')],
         mcp_serverId = ''default''\<rparr>]
   \<and> pending_of (fst (snd (generateResponseWithSession demoEnv ''yes'' (Some ''s1'')
         pendingService))) ''s1'' = None"
proof -
  let ?p = "\<lparr>originalToolCall = demoOrderCall, waitingForTermsAcceptance = True,
           termsMessage = Some termsText\<rparr>"
  have h1: "pending_of pendingService ''s1'' = Some ?p" by (rule demo_pending)
  have h2: "waitingForTermsAcceptance ?p" by simp
  have h3: "''s1'' \<noteq> []" by simp
  have h4: "\<not> isAccepted demoEnv ''no''" by (rule accept_examples)
  have h5: "isAccepted demoEnv ''yes''" by (rule accept_examples)
  have h6: "JSON_parse demoEnv (function_arguments demoOrderCall) = Some (JObj [])"
    by (simp add: demoEnv_fields demoOrderCall_def demoParse_def)
  have h6': "JSON_parse demoEnv (function_arguments (originalToolCall ?p)) = Some (JObj [])"
    using h6 by simp
  have h7: "startsWith (function_name demoOrderCall) mcpPrefix"
    by (simp add: demoOrderCall_def mcpPrefix_def)
  have h7': "startsWith (function_name (originalToolCall ?p)) mcpPrefix"
    using h7 by simp
  have h8: "mcpConnectionHealthy demoEnv" by (rule demoEnv_fields)
  have tc: "termsCheckedArguments demoEnv (JObj []) = [(''termsChecked'', JBool True)]"
    by (simp add: termsCheckedArguments_def ownProperties_def)
  have h9: "JSON_parse demoEnv (JSON_stringify demoEnv
         (JObj (termsCheckedArguments demoEnv (JObj [])))) =
       Some (JObj (termsCheckedArguments demoEnv (JObj [])))"
    by (simp add: tc demoEnv_fields demoStringify_def demoParse_def)
  note No = terms_decision_turn [OF h1 h2 h3, of demoEnv "''no''" "JObj []" "[]"]
  note Yes = terms_decision_turn [OF h1 h2 h3, of demoEnv "''yes''" "JObj []" "[]"]
  have c1: "fst (generateResponseWithSession demoEnv ''no'' (Some ''s1'') pendingService) =
       Returned refusal ''s1''"
    using No h4 by blast
  have c2: "fst (generateResponseWithSession demoEnv ''yes'' (Some ''s1'') pendingService) =
       (case fst (executeMCPTool demoEnv
                    (modifiedToolCall demoEnv (originalToolCall ?p) (JObj []))) of
          Inr result \<Rightarrow> Returned (thanksPrefix @ formatToolResult demoEnv result) ''s1''
        | Inl err \<Rightarrow> Returned (retryErrorPrefix @ err) ''s1'')"
    using Yes h5 h6' by blast
  have c2': "fst (generateResponseWithSession demoEnv ''yes'' (Some ''s1'') pendingService) =
       Returned (thanksPrefix @ formatToolResult demoEnv placedResult) ''s1''"
    using c2 demo_retry by simp
  have c3: "dispatchedCalls (snd (snd (generateResponseWithSession demoEnv ''yes'' (Some ''s1'')
         pendingService))) =
       [\<lparr>mcp_name = drop (length mcpPrefix) (function_name (originalToolCall ?p)),
         mcp_arguments = inject ''baseSiteId'' (baseSite demoEnv)
                           (termsCheckedArguments demoEnv (JObj [])),
         mcp_serverId = ''default''\<rparr>]"
    using Yes h5 h6' h7' h8 h9 by blast
  have c3': "dispatchedCalls (snd (snd (generateResponseWithSession demoEnv ''yes'' (Some ''s1'')
         pendingService))) =
       [\<lparr>mcp_name = ''place-order'',
         mcp_arguments = [(''termsChecked'', JBool True), (''baseSiteId'', JStr ''powertools-spa'')],
         mcp_serverId = ''default''\<rparr>]"
    using c3
    by (simp add: mcpPrefix_def demoOrderCall_def inject_def truthy_def demoEnv_fields tc)
  have c4: "pending_of (fst (snd (generateResponseWithSession demoEnv ''yes'' (Some ''s1'')
         pendingService))) ''s1'' = None"
    using Yes by blast
  show ?thesis using h1 h3 h4 h5 h6 h7 h8 h9 c1 c2' c3' c4 by blast
qed

theorem terms_decision_counterexample:
  "isAccepted demoEnv ''yes please'' \<and> \<not> spec_accept_exact demoEnv ''yes please''
   \<and> \<not> isAccepted demoEnv ''why'' \<and> spec_accept_anywhere demoEnv ''why''
   \<and> isAccepted demoEnv ''yes''
   \<and> fst (generateResponseWithSession demoEnv ''yes'' (Some ''s1'') pendingService) =
       Returned (thanksPrefix @ formatToolResult demoEnv placedResult) ''s1''
   \<and> thanksPrefix @ formatToolResult demoEnv placedResult \<noteq>
       formatToolResult demoEnv placedResult
   \<and> fst (generateResponseWithSession unreachableEnv ''yes'' (Some ''s1'') pendingService) =
       Returned (retryErrorPrefix @ ''MCP connection could not be established'') ''s1''
   \<and> dispatchedCalls (snd (snd (generateResponseWithSession unreachableEnv ''yes''
         (Some ''s1'') pendingService))) = []"
proof -
  let ?p = "\<lparr>originalToolCall = demoOrderCall, waitingForTermsAcceptance = True,
           termsMessage = Some termsText\<rparr>"
  have p: "pending_of pendingService ''s1'' = Some ?p" by (rule demo_pending)
  have wt: "\<And>w. isWaitingForTermsAcceptance (resolveSessionId w (Some ''s1'')) pendingService"
    using p by (simp add: waiting_pending resolveSessionId_def truthy_def)
  have eq: "\<And>w u. generateResponseWithSession w u (Some ''s1'') pendingService =
              handleTermsAcceptanceResponse w u ''s1'' pendingService"
    using turn_waiting [OF wt] by (simp add: resolveSessionId_def truthy_def)
  have yes: "isAccepted demoEnv ''yes''" by (rule accept_examples)
  have yes': "isAccepted unreachableEnv ''yes''"
    using yes by (simp add: isAccepted_def unreachableEnv_def)
  have parse: "JSON_parse demoEnv (function_arguments (originalToolCall ?p)) = Some (JObj [])"
    "JSON_parse unreachableEnv (function_arguments (originalToolCall ?p)) = Some (JObj [])"
    by (simp_all add: unreachableEnv_def demoEnv_fields demoOrderCall_def demoParse_def)
  have a: "fst (generateResponseWithSession demoEnv ''yes'' (Some ''s1'') pendingService) =
       Returned (thanksPrefix @ formatToolResult demoEnv placedResult) ''s1''"
    using handle_accepted [OF p yes parse(1)] demo_retry by (auto simp: eq)
  have call: "modifiedToolCall unreachableEnv demoOrderCall (JObj []) =
     demoOrderCall\<lparr>function_arguments := ''{\"termsChecked\":true}''\<rparr>"
    using demo_retry_call by (simp add: modifiedToolCall_def termsCheckedArguments_def
        ownProperties_def unreachableEnv_def)
  have pre: "startsWith (function_name (modifiedToolCall unreachableEnv demoOrderCall (JObj [])))
               mcpPrefix"
    "\<not> assignmentFails unreachableEnv (modifiedToolCall unreachableEnv demoOrderCall (JObj []))"
    unfolding call
    by (simp_all add: demoOrderCall_def mcpPrefix_def assignmentFails_def argumentsValue_def
        acceptsProperty_def unreachableEnv_def demoEnv_fields demoParse_def)
  have b: "fst (generateResponseWithSession unreachableEnv ''yes'' (Some ''s1'') pendingService) =
       Returned (retryErrorPrefix @ ''MCP connection could not be established'') ''s1''
     \<and> dispatchedCalls (snd (snd (generateResponseWithSession unreachableEnv ''yes''
         (Some ''s1'') pendingService))) = []"
    using handle_accepted [OF p yes' parse(2)] pre by (auto simp: eq unreachable_retry)
  have c: "thanksPrefix @ formatToolResult demoEnv placedResult \<noteq>
       formatToolResult demoEnv placedResult"
    by (simp add: thanksPrefix_def)
  show ?thesis
    using accept_examples spec_examples a b c by blast
qed


section \<open>The order flow\<close>

lemma flow_of_ctx_eq: "sessionContext st' = sessionContext st \<Longrightarrow> flow_of st' = flow_of st"
  by (rule ext) (simp add: flow_of_def)

lemma flow_of_add [simp]: "flow_of (addToConversationHistory s m st) = flow_of st"
  by (rule flow_of_ctx_eq) simp

lemma flow_of_get [simp]: "flow_of (snd (getConversationHistory s st)) = flow_of st"
  by (rule flow_of_ctx_eq) simp

lemma flow_of_cleanup [simp]: "flow_of (cleanupOldSessions t st) = flow_of st"
  by (rule flow_of_ctx_eq) (simp add: cleanupOldSessions_def)

lemma flow_of_init:
  "flow_of (initializeOrderFlow s st) = (flow_of st)(s \<mapsto> freshFlow)"
  by (rule ext)
    (simp add: flow_of_def initializeOrderFlow_def Let_def freshFlow_def)

lemma flow_of_clearPending [simp]: "flow_of (clearPendingOrderContext s st) = flow_of st"
  by (rule ext) (simp add: flow_of_def clearPendingOrderContext_def split: option.split)

lemma flow_of_setPending [simp]: "flow_of (setPendingOrderContext s c m st) = flow_of st"
  by (rule ext)
    (simp add: flow_of_def setPendingOrderContext_def Let_def contextOrNew_def emptyContext_def
      split: option.split)

lemma flow_of_clearOrderFlow: "flow_of (clearOrderFlow s st) = (flow_of st)(s := None)"
  by (rule ext) (auto simp: flow_of_def clearOrderFlow_def split: option.split)

lemma flow_of_clearSession: "flow_of (clearConversationHistory s st) = (flow_of st)(s := None)"
  by (rule ext) (simp add: flow_of_def clearConversationHistory_def)

lemma flow_of_update:
  "flow_of (updateOrderFlowData s d st) =
     (case flow_of st s of
        None \<Rightarrow> flow_of st
      | Some f \<Rightarrow> (flow_of st)(s \<mapsto> f\<lparr>collectedData := spread (collectedData f) d\<rparr>))"
  by (rule ext) (auto simp: flow_of_def updateOrderFlowData_def split: option.split)

lemma flow_of_advance:
  "flow_of (advanceOrderStep s st) =
     (case flow_of st s of
        None \<Rightarrow> flow_of st
      | Some f \<Rightarrow> (flow_of st)(s \<mapsto> f\<lparr>currentStep := nextStep (currentStep f)\<rparr>))"
proof (rule ext)
  fix sid
  show "flow_of (advanceOrderStep s st) sid =
     (case flow_of st s of
        None \<Rightarrow> flow_of st
      | Some f \<Rightarrow> (flow_of st)(s \<mapsto> f\<lparr>currentStep := nextStep (currentStep f)\<rparr>)) sid"
  proof (cases "sessionContext st s")
    case None
    then show ?thesis by (simp add: flow_of_def advanceOrderStep_def)
  next
    case (Some ctx)
    show ?thesis
    proof (cases "orderFlow ctx")
      case None
      then show ?thesis using Some by (simp add: flow_of_def advanceOrderStep_def)
    next
      case (Some f)
      then show ?thesis using \<open>sessionContext st s = Some ctx\<close>
        by (cases "currentStep f")
          (auto simp: flow_of_def advanceOrderStep_def stepOrder_def nextStep_def Let_def)
    qed
  qed
qed

lemma stepIndex_next:
  "stepIndex (f\<lparr>currentStep := nextStep (currentStep f)\<rparr>) = min 4 (stepIndex f + 1)"
  by (cases "currentStep f") (simp_all add: stepIndex_def stepOrder_def nextStep_def)

lemma hasActive_flow:
  "hasActiveOrderFlow s st = (case flow_of st s of None \<Rightarrow> False | Some f \<Rightarrow> isActive f)"
  by (simp add: hasActiveOrderFlow_def flow_of_def split: option.split)

lemma flow_of_normalTurn:
  "flow_of (fst (snd (normalTurn w u s st))) =
     (if list_ex (\<lambda>keyword. str_includes (toLowerCase w u) keyword) orderKeywords \<and>
         \<not> hasActiveOrderFlow s st
      then (flow_of st)(s \<mapsto> freshFlow) else flow_of st)"
  by (simp add: normalTurn_def Let_def split_beta flow_of_init)

lemma flow_of_handle:
  "flow_of (fst (snd (handleTermsAcceptanceResponse w u s st))) =
     (case pending_of st s of
        None \<Rightarrow> flow_of (fst (snd (normalTurn w u s st)))
      | Some p \<Rightarrow> flow_of st)"
  by (simp add: handleTermsAcceptanceResponse_def Let_def
      split: option.split sum.split prod.split)

lemma flowStep_refl [simp]: "flowStep x x"
  by (simp add: flowStep_def split: option.split)

lemma flowStep_None [simp]: "flowStep x None"
  by (simp add: flowStep_def)

lemma flowStep_next:
  "flowStep (Some f) (Some (f\<lparr>currentStep := nextStep (currentStep f)\<rparr>))"
  by (cases "currentStep f") (simp_all add: flowStep_def stepIndex_def stepOrder_def nextStep_def)

lemma flowStep_normalTurn:
  assumes "activeFlows st"
  shows "flowStep (flow_of st sid) (flow_of (fst (snd (normalTurn w u s st))) sid)"
  using assms
  by (auto simp: flow_of_normalTurn hasActive_flow flowStep_def freshFlow_def activeFlows_def
      split: option.splits)

lemma active_normalTurn:
  assumes "activeFlows st"
  shows "activeFlows (fst (snd (normalTurn w u s st)))"
  using assms by (auto simp: flow_of_normalTurn activeFlows_def freshFlow_def)

lemma flowStep_perform:
  assumes "\<not> isStart op" and "activeFlows st"
  shows "flowStep (flow_of st sid) (flow_of (perform op st) sid)"
proof (cases op)
  case (Advance s)
  then show ?thesis
    by (simp add: flow_of_advance flowStep_next split: option.split)
next
  case (UpdateData s d)
  then show ?thesis
    by (auto simp: flow_of_update flowStep_def stepIndex_def split: option.splits)
next
  case (StartOrderFlow s)
  then show ?thesis using assms(1) by (simp add: isStart_def)
next
  case (CancelOrderFlow s)
  then show ?thesis by (simp add: cancelOrderFlow_def flow_of_clearOrderFlow)
next
  case (ClearSession s)
  then show ?thesis by (simp add: flow_of_clearSession)
next
  case (SetPending s c m)
  then show ?thesis by simp
next
  case (Turn w u s)
  then show ?thesis
    using flowStep_normalTurn [OF assms(2)]
    by (simp add: generateResponseWithSession_def Let_def flow_of_handle split: option.split)
next
  case (Cleanup t)
  then show ?thesis by simp
qed

lemma active_perform:
  assumes "activeFlows st"
  shows "activeFlows (perform op st)"
proof (cases op)
  case (Advance s)
  then show ?thesis using assms
    by (auto simp: flow_of_advance activeFlows_def split: option.splits if_splits)
next
  case (UpdateData s d)
  then show ?thesis using assms
    by (auto simp: flow_of_update activeFlows_def split: option.splits if_splits)
next
  case (StartOrderFlow s)
  then show ?thesis using assms
    by (auto simp: startOrderFlow_def flow_of_init activeFlows_def freshFlow_def)
next
  case (CancelOrderFlow s)
  then show ?thesis using assms
    by (auto simp: cancelOrderFlow_def flow_of_clearOrderFlow activeFlows_def split: if_splits)
next
  case (ClearSession s)
  then show ?thesis using assms
    by (auto simp: flow_of_clearSession activeFlows_def split: if_splits)
next
  case (SetPending s c m)
  then show ?thesis using assms by (simp add: activeFlows_def)
next
  case (Turn w u s)
  then show ?thesis
    using active_normalTurn [OF assms] assms
    by (simp add: generateResponseWithSession_def Let_def activeFlows_def flow_of_handle
        split: option.split)
next
  case (Cleanup t)
  then show ?thesis using assms by (simp add: activeFlows_def)
qed


lemma getCurrentOrderStep_flow:
  "getCurrentOrderStep s st = map_option currentStep (flow_of st s)"
  by (simp add: getCurrentOrderStep_def flow_of_def split: option.split)

lemma nextStep_ends: "nextStep Payment = Address" "nextStep Complete = Complete"
  by (simp_all add: nextStep_def)

text \<open>
  Claim C8, as amended.  The step-advance operation moves \<open>currentStep\<close> of an existing
  order flow exactly one position forward in the sequence payment, address, delivery,
  confirmation, complete, and leaves the rest of the flow alone: from payment it yields
  address, from complete the step is unchanged.  Every operation on the stores other than
  starting an order flow (advance, data update, cancel, session clear, setting the terms
  interrupt, a turn, the cleanup sweep) keeps the step of an existing flow or moves it to
  the next one, or removes the flow; a flow that appears starts at payment.  Starting an
  order flow installs a fresh flow at payment, also over a flow that is further along.
  Cancelling the order flow and clearing the session remove the flow entirely.
\<close>

theorem order_flow_sequence:
  "(flow_of st sid = Some f \<longrightarrow>
      flow_of (advanceOrderStep sid st) sid = Some (f\<lparr>currentStep := nextStep (currentStep f)\<rparr>)
      \<and> stepIndex (f\<lparr>currentStep := nextStep (currentStep f)\<rparr>) = min 4 (stepIndex f + 1))
   \<and> (flow_of st sid = Some f \<and> currentStep f = Payment \<longrightarrow>
        getCurrentOrderStep sid (advanceOrderStep sid st) = Some Address)
   \<and> (flow_of st sid = Some f \<and> currentStep f = Complete \<longrightarrow>
        getCurrentOrderStep sid (advanceOrderStep sid st) = Some Complete)
   \<and> (\<not> isStart op \<and> activeFlows st \<longrightarrow>
        flowStep (flow_of st sid) (flow_of (perform op st) sid))
   \<and> (activeFlows st \<longrightarrow> activeFlows (perform op st))
   \<and> flow_of (startOrderFlow sid st) sid = Some freshFlow
   \<and> flow_of (cancelOrderFlow sid st) sid = None
   \<and> flow_of (clearConversationHistory sid st) sid = None"
  using flowStep_perform [of op st sid] active_perform [of st op]
  by (simp add: flow_of_advance stepIndex_next getCurrentOrderStep_flow nextStep_ends
      startOrderFlow_def flow_of_init cancelOrderFlow_def flow_of_clearOrderFlow
      flow_of_clearSession)

theorem order_flow_sequence_witness:
  "flow_of startedService ''s1'' = Some freshFlow
   \<and> currentStep freshFlow = Payment
   \<and> flow_of completedService ''s1'' = Some (freshFlow\<lparr>currentStep := Complete\<rparr>)
   \<and> currentStep (freshFlow\<lparr>currentStep := Complete\<rparr>) = Complete
   \<and> \<not> isStart (Advance ''s1'')
   \<and> activeFlows startedService
   \<and> getCurrentOrderStep ''s1'' (advanceOrderStep ''s1'' startedService) = Some Address
   \<and> getCurrentOrderStep ''s1'' (advanceOrderStep ''s1'' completedService) = Some Complete
   \<and> flowStep (flow_of startedService ''s1'')
         (flow_of (perform (Advance ''s1'') startedService) ''s1'')
   \<and> activeFlows (perform (Advance ''s1'') startedService)"
proof -
  have h1: "flow_of startedService ''s1'' = Some freshFlow"
    by (simp add: startedService_def startOrderFlow_def flow_of_init)
  have h2: "currentStep freshFlow = Payment" by (simp add: freshFlow_def)
  have h3: "flow_of completedService ''s1'' = Some (freshFlow\<lparr>currentStep := Complete\<rparr>)"
    by (simp add: completedService_def flow_of_advance h1 nextStep_def freshFlow_def)
  have h4: "currentStep (freshFlow\<lparr>currentStep := Complete\<rparr>) = Complete" by simp
  have h5: "\<not> isStart (Advance ''s1'')" by (simp add: isStart_def)
  have h6: "activeFlows startedService"
    by (simp add: activeFlows_def startedService_def startOrderFlow_def flow_of_init
        freshFlow_def) (simp add: flow_of_def demoService_def)
  note A = order_flow_sequence [of startedService "''s1''" freshFlow "Advance ''s1''"]
  note B = order_flow_sequence
    [of completedService "''s1''" "freshFlow\<lparr>currentStep := Complete\<rparr>" "Advance ''s1''"]
  have c1: "getCurrentOrderStep ''s1'' (advanceOrderStep ''s1'' startedService) = Some Address"
    using A h1 h2 by blast
  have c2: "getCurrentOrderStep ''s1'' (advanceOrderStep ''s1'' completedService) = Some Complete"
    using B h3 h4 by blast
  have c3: "flowStep (flow_of startedService ''s1'')
         (flow_of (perform (Advance ''s1'') startedService) ''s1'')"
    using A h5 h6 by blast
  have c4: "activeFlows (perform (Advance ''s1'') startedService)"
    using A h6 by blast
  show ?thesis using h1 h2 h3 h4 h5 h6 c1 c2 c3 c4 by blast
qed

theorem order_flow_restart_counterexample:
  "getCurrentOrderStep ''s1'' (advanceOrderStep ''s1'' (startOrderFlow ''s1'' demoService)) =
     Some Address
   \<and> getCurrentOrderStep ''s1''
        (startOrderFlow ''s1'' (advanceOrderStep ''s1'' (startOrderFlow ''s1'' demoService))) =
     Some Payment
   \<and> indexOf stepOrder Payment < indexOf stepOrder Address"
  by (simp add: getCurrentOrderStep_flow startOrderFlow_def flow_of_init flow_of_advance
      freshFlow_def nextStep_def stepOrder_def)


section \<open>The cleanup sweep\<close>

text \<open>
  Claim C9 (the code falls short of it).  The sweep deletes the conversation history of a
  session whose last message is older than the timeout, and nothing else: the session
  context is the same before and after every sweep.  For the stale session \<open>s1\<close>, after
  the sweep the history is gone while its order flow and its pending terms interrupt are
  still in the store; an explicit session clear removes both stores' entries.
\<close>

theorem cleanup_keeps_session_context:
  "sessionContext (cleanupOldSessions t st) = sessionContext st
   \<and> expired sweepTime (history_of staleService ''s1'')
   \<and> conversationHistory (cleanupOldSessions sweepTime staleService) ''s1'' = None
   \<and> flow_of (cleanupOldSessions sweepTime staleService) ''s1'' = Some freshFlow
   \<and> isWaitingForTermsAcceptance ''s1'' (cleanupOldSessions sweepTime staleService)
   \<and> conversationHistory (clearConversationHistory ''s1'' staleService) ''s1'' = None
   \<and> sessionContext (clearConversationHistory ''s1'' staleService) ''s1'' = None"
proof -
  have e: "expired sweepTime (history_of staleService ''s1'')"
    by (simp add: expired_def history_of_def staleService_def message_def demoEnv_fields
        sweepTime_def)
  have c: "sessionContext (cleanupOldSessions t st) = sessionContext st"
    by (simp add: cleanupOldSessions_def)
  have h: "conversationHistory (cleanupOldSessions sweepTime staleService) ''s1'' = None"
    using e by (simp add: cleanupOldSessions_def history_of_def staleService_def)
  show ?thesis
    using e c h
    by (simp add: flow_of_def isWaitingForTermsAcceptance_def cleanupOldSessions_def
        clearConversationHistory_def)
      (simp add: staleService_def)
qed


section \<open>The availability cache\<close>

text \<open>
  Claim C4 (the code falls short of it).  A first availability check of a provider at
  time 0 issues probe 0 and answers with its shared observable; a second check at time 10,
  inside the 30-second window and before the probe has ended, issues no probe, but it
  answers with the placeholder \<open>False\<close> that the first check cached, not with the shared
  observable.  When the probe finds the provider available, the first caller sees
  \<open>True\<close> and the second \<open>False\<close>; once the probe has ended, a later check
  inside the window answers \<open>True\<close>.
\<close>

theorem in_flight_check_not_shared:
  "fst firstCheck = SharedProbe 0
   \<and> probes (snd firstCheck) = [OpenAI]
   \<and> int 10 - int 0 < int CACHE_DURATION
   \<and> fst secondCheck = Immediate False
   \<and> probes (snd secondCheck) = [OpenAI]
   \<and> observed (\<lambda>probe. True) (fst firstCheck) = True
   \<and> observed (\<lambda>probe. True) (fst secondCheck) = False
   \<and> fst (checkProviderAvailabilityWithCache 200 OpenAI
            (probeCompleted 100 0 True (snd secondCheck))) = Immediate True"
proof -
  have a: "firstCheck =
      (SharedProbe 0,
       \<lparr>availabilityCache = [OpenAI \<mapsto> \<lparr>available = False, lastCheck = 0, observable = Some 0\<rparr>],
        probes = [OpenAI]\<rparr>)"
    by (simp add: firstCheck_def checkProviderAvailabilityWithCache_def emptyRegistry_def
        freshCheck_def registered_def Let_def)
  have b: "secondCheck = (Immediate False, snd firstCheck)"
    by (simp add: secondCheck_def a checkProviderAvailabilityWithCache_def CACHE_DURATION_def)
  have c: "fst (checkProviderAvailabilityWithCache 200 OpenAI
            (probeCompleted 100 0 True (snd secondCheck))) = Immediate True"
    by (simp add: b a probeCompleted_def checkProviderAvailabilityWithCache_def
        CACHE_DURATION_def)
  show ?thesis
    using c by (simp add: b observed_def CACHE_DURATION_def) (simp add: a)
qed


section \<open>The Gemini adapter and tools\<close>

text \<open>
  Claim C7 (the code falls short of it).  The request the Gemini adapter sends does not
  depend on the tool definitions it is given: with the order tool offered, the request
  carries no structured tool definitions and none of its texts mentions the tool.  The
  sibling adapters do surface the same tool: the chat-completions adapters pass the
  definitions in the request, and the Ollama adapter writes the tool's name and
  description into the prompt.
\<close>

theorem gemini_drops_tools:
  "GeminiProvider_generateResponse cfg messages tools =
     GeminiProvider_generateResponse cfg messages None
   \<and> GeminiProvider_generateResponse geminiConfig demoMessages (Some demoToolDefs) =
       Inr (GeminiGenerateContent (convertMessagesToGeminiFormat demoMessages))
   \<and> requestTools (GeminiGenerateContent (convertMessagesToGeminiFormat demoMessages)) = None
   \<and> \<not> list_ex (\<lambda>txt. str_includes txt ''place-order'')
         (requestTexts (GeminiGenerateContent (convertMessagesToGeminiFormat demoMessages)))
   \<and> requestTools (chatCompletionsBody demoMessages (Some demoToolDefs)) = Some demoToolDefs
   \<and> list_ex (\<lambda>txt. str_includes txt
                 ''- mcp_place-order: Place the order for the active cart'')
         (requestTexts (generateOllamaResponse demoMessages (Some demoToolDefs)))"
proof -
  have g: "\<not> list_ex (\<lambda>txt. str_includes txt ''place-order'')
         (requestTexts (GeminiGenerateContent (convertMessagesToGeminiFormat demoMessages)))"
    by (simp add: requestTexts_def convertMessagesToGeminiFormat_def demoMessages_def
        message_def geminiPersona_def)
  have o: "list_ex (\<lambda>txt. str_includes txt
                 ''- mcp_place-order: Place the order for the active cart'')
         (requestTexts (generateOllamaResponse demoMessages (Some demoToolDefs)))"
    by (simp add: requestTexts_def generateOllamaResponse_def hasTools_def demoToolDefs_def
        toolLine_def toLLMTool_def demoTool_def mcpPrefix_def convertMessagesToPrompt_def
        demoMessages_def message_def Let_def)
  show ?thesis
    using g o
    by (simp add: GeminiProvider_generateResponse_def geminiConfig_def truthy_def
        requestTools_def chatCompletionsBody_def hasTools_def demoToolDefs_def)
qed

end
